theory Spec2Isabelle
  imports Main "HOL-Library.Char_ord"
begin

section \<open>The simple database plugin of MPD\<close>

text \<open>
  A shallow embedding of \<^verbatim>\<open>src/db/plugins/simple/SimpleDatabasePlugin.cxx\<close>.
  Each method of \<^verbatim>\<open>SimpleDatabase\<close> is a function that takes the object and the part of
  the program state it touches and returns them updated, next to its result. A C++
  exception is a value \<open>Inl e\<close>. The debug build is modelled (\<^verbatim>\<open>NDEBUG\<close> undefined, so
  \<^verbatim>\<open>assert\<close> is checked and \<^verbatim>\<open>borrowed_song_count\<close> exists), on a POSIX system
  (\<^verbatim>\<open>_WIN32\<close> undefined). The global database lock (\<^verbatim>\<open>ScopeDatabaseLock\<close>) orders
  threads and computes nothing: the embedding is of one thread and leaves it out.
\<close>

subsection \<open>Errors\<close>

text \<open>
  \<^verbatim>\<open>DatabaseErrorCode\<close>: the two codes this file throws.
\<close>

datatype DatabaseErrorCode = NOT_FOUND | CONFLICT

text \<open>
  What a call can end in other than returning. The first four are C++ exceptions, all
  derived from \<^verbatim>\<open>std::exception\<close>: \<^verbatim>\<open>DatabaseError(code, msg)\<close>,
  \<^verbatim>\<open>std::runtime_error(msg)\<close>, the \<^verbatim>\<open>std::system_error\<close> of \<^verbatim>\<open>FormatErrno\<close>, and
  \<^verbatim>\<open>std::throw_with_nested\<close> (the new exception around the one in flight). The last two
  end the process and no handler sees them: a failed \<^verbatim>\<open>assert\<close>, and the use of a pointer
  that refers to no object, which the source does not guard (undefined behaviour).
\<close>

datatype error =
    DatabaseError DatabaseErrorCode string
  | RuntimeError string
  | SystemError string
  | NestedError error error
  | AssertionFailed
  | InvalidPointer

fun is_exception :: "error \<Rightarrow> bool" where
  "is_exception AssertionFailed = False"
| "is_exception InvalidPointer = False"
| "is_exception _ = True"

subsection \<open>The name of a cache-backed mount\<close>

text \<open>
  Modelled from the spec: \<^verbatim>\<open>IsAlphaNumericASCII\<close> of \<^verbatim>\<open>util/CharUtil.hxx\<close> is not
  among the sources; the specification calls the characters it accepts alphanumeric.
  These are the ASCII letters and digits.
\<close>

definition IsUpperAlphaASCII :: "char \<Rightarrow> bool" where
  "IsUpperAlphaASCII ch = (CHR ''A'' \<le> ch \<and> ch \<le> CHR ''Z'')"

definition IsLowerAlphaASCII :: "char \<Rightarrow> bool" where
  "IsLowerAlphaASCII ch = (CHR ''a'' \<le> ch \<and> ch \<le> CHR ''z'')"

definition IsDigitASCII :: "char \<Rightarrow> bool" where
  "IsDigitASCII ch = (CHR ''0'' \<le> ch \<and> ch \<le> CHR ''9'')"

definition IsAlphaNumericASCII :: "char \<Rightarrow> bool" where
  "IsAlphaNumericASCII ch = (IsUpperAlphaASCII ch \<or> IsLowerAlphaASCII ch \<or> IsDigitASCII ch)"

text \<open>
  \<^verbatim>\<open>IsSafeChar\<close> and \<^verbatim>\<open>IsUnsafeChar\<close>, lines 404 to 414.
\<close>

definition IsSafeChar :: "char \<Rightarrow> bool" where
  "IsSafeChar ch = (IsAlphaNumericASCII ch \<or> ch = CHR ''-'' \<or> ch = CHR ''_'' \<or> ch = CHR ''%'')"

definition IsUnsafeChar :: "char \<Rightarrow> bool" where
  "IsUnsafeChar ch = (\<not> IsSafeChar ch)"

text \<open>
  \<^verbatim>\<open>std::replace_if(first, last, p, new_value)\<close>: every element that satisfies \<open>p\<close>
  becomes \<open>new_value\<close>, the others stay, in place.
\<close>

fun replace_if :: "('a \<Rightarrow> bool) \<Rightarrow> 'a \<Rightarrow> 'a list \<Rightarrow> 'a list" where
  "replace_if p new_value [] = []"
| "replace_if p new_value (x # xs) =
     (if p x then new_value else x) # replace_if p new_value xs"

text \<open>
  Lines 423 and 424 of the cache-backed \<^verbatim>\<open>Mount\<close>: the local \<^verbatim>\<open>name\<close>, a copy of
  \<^verbatim>\<open>storage_uri\<close> with every unsafe character replaced by an underscore.
\<close>

definition cache_mount_name :: "string \<Rightarrow> string" where
  "cache_mount_name storage_uri = replace_if IsUnsafeChar (CHR ''_'') storage_uri"

subsection \<open>Songs\<close>

text \<open>
  Modelled from the spec: \<^verbatim>\<open>Song\<close>, \<^verbatim>\<open>LightSong\<close> and \<^verbatim>\<open>PrefixedLightSong\<close> are
  declared outside the sources. A song entry has a name (its final path segment) and a
  tag; its exported form, the light song, adds the path of the directory the song is in
  (a null pointer for a song of the root). \<^verbatim>\<open>Song::Export\<close> is a read-only projection.
  The song knows its directory through a parent pointer; here the path of the directory
  is an argument.
\<close>

type_synonym Tag = "(string \<times> string) list"

record Song =
  uri :: string
  tag :: Tag

record LightSong =
  directory :: "string option"
  uri :: string
  tag :: Tag

definition Export :: "string \<Rightarrow> Song \<Rightarrow> LightSong" where
  "Export parent_path song =
     \<lparr> LightSong.directory = (if parent_path = [] then None else Some parent_path),
       LightSong.uri = Song.uri song,
       LightSong.tag = Song.tag song \<rparr>"

definition GetURI :: "LightSong \<Rightarrow> string" where
  "GetURI song =
     (case LightSong.directory song of
        None \<Rightarrow> LightSong.uri song
      | Some d \<Rightarrow> d @ ''/'' @ LightSong.uri song)"

text \<open>
  Modelled from the spec: the prefixed view is a copy of a result of a mounted database
  with the path of the mount point put before its path, so that the song appears where
  it is relative to the root of the mounting database.
\<close>

definition PrefixedLightSong :: "LightSong \<Rightarrow> string \<Rightarrow> LightSong" where
  "PrefixedLightSong song base =
     song \<lparr> LightSong.directory := None, LightSong.uri := base @ ''/'' @ GetURI song \<rparr>"

subsection \<open>Directories and path resolution\<close>

text \<open>
  Modelled from the spec: \<^verbatim>\<open>Directory\<close> is declared outside the sources. A node has a
  name (empty for the root), child directories, songs, and a pointer to a mounted
  database, null for a plain directory. The pointer is an address in the store of
  database objects below.
\<close>

datatype Directory =
  Directory (name: string) (children: "Directory list") (songs: "Song list")
    (mounted_database: "nat option")

definition NewRoot :: Directory where
  "NewRoot = Directory [] [] [] None"

definition IsMount :: "Directory \<Rightarrow> bool" where
  "IsMount d = (mounted_database d \<noteq> None)"

fun find_index :: "('a \<Rightarrow> bool) \<Rightarrow> 'a list \<Rightarrow> nat option" where
  "find_index P [] = None"
| "find_index P (x # xs) = (if P x then Some 0 else map_option Suc (find_index P xs))"

text \<open>The first child directory with the given name, as its index among the children.\<close>

definition FindChild :: "Directory \<Rightarrow> string \<Rightarrow> nat option" where
  "FindChild d n = find_index (\<lambda>c. name c = n) (children d)"

text \<open>The song of the directory with exactly the given name.\<close>

definition FindSong :: "Directory \<Rightarrow> string \<Rightarrow> Song option" where
  "FindSong d n = find (\<lambda>s. Song.uri s = n) (songs d)"

text \<open>
  A \<^verbatim>\<open>Directory *\<close> into the tree of a database is the position of the node: the indices
  of the children to follow from the root. \<open>deref\<close> reads the node a pointer refers to,
  \<open>update_at\<close> assigns to it.
\<close>

fun deref :: "Directory \<Rightarrow> nat list \<Rightarrow> Directory option" where
  "deref d [] = Some d"
| "deref d (i # p) = (if i < length (children d) then deref (children d ! i) p else None)"

fun update_at :: "Directory \<Rightarrow> nat list \<Rightarrow> (Directory \<Rightarrow> Directory) \<Rightarrow> Directory" where
  "update_at d [] f = f d"
| "update_at d (i # p) f =
     (if i < length (children d)
      then Directory (name d) ((children d)[i := update_at (children d ! i) p f]) (songs d)
             (mounted_database d)
      else d)"

text \<open>
  \<^verbatim>\<open>Directory::CreateChild(name)\<close> appends a new, empty directory to the children; the
  pointer it returns refers to the last child.
\<close>

definition CreateChild :: "Directory \<Rightarrow> string \<Rightarrow> Directory" where
  "CreateChild d name_utf8 =
     Directory (name d) (children d @ [Directory name_utf8 [] [] None]) (songs d)
       (mounted_database d)"

definition set_mounted_database :: "nat option \<Rightarrow> Directory \<Rightarrow> Directory" where
  "set_mounted_database db d = Directory (name d) (children d) (songs d) db"

definition remove_nth :: "nat \<Rightarrow> 'a list \<Rightarrow> 'a list" where
  "remove_nth i xs = take i xs @ drop (Suc i) xs"

text \<open>
  \<^verbatim>\<open>Directory::Delete()\<close> removes the node from the children of its parent. The root has
  no parent: the parent pointer is null there.
\<close>

definition Delete :: "Directory \<Rightarrow> nat list \<Rightarrow> error + Directory" where
  "Delete rt p =
     (if p = [] then Inl InvalidPointer
      else Inr (update_at rt (butlast p)
                  (\<lambda>parent. Directory (name parent) (remove_nth (last p) (children parent))
                     (songs parent) (mounted_database parent))))"

text \<open>The segments of a path between its slashes, and the path of given segments.\<close>

fun split_path :: "string \<Rightarrow> string list" where
  "split_path [] = [[]]"
| "split_path (c # cs) =
     (if c = CHR ''/'' then [] # split_path cs
      else (case split_path cs of
              [] \<Rightarrow> [[c]]
            | s # ss \<Rightarrow> (c # s) # ss))"

fun join_path :: "string list \<Rightarrow> string" where
  "join_path [] = []"
| "join_path [s] = s"
| "join_path (s # t # ss) = s @ ''/'' @ join_path (t # ss)"

text \<open>
  \<^verbatim>\<open>Directory::LookupResult\<close>: \<open>directory\<close> is the pointer to the directory the
  resolution ended in and \<open>uri\<close> the remaining path, null when all of it is consumed.
  \<open>node\<close> is the directory \<open>directory\<close> points to and \<open>node_path\<close> its
  \<^verbatim>\<open>GetPath()\<close>, the names from the root to it joined with slashes.
\<close>

record LookupResult =
  directory :: "nat list"
  node :: Directory
  node_path :: string
  uri :: "string option"

text \<open>
  Modelled from the spec: \<^verbatim>\<open>Directory::LookupDirectory\<close> is defined outside the sources.
  It consumes the segments of the path as names of child directories, from the root,
  and returns the deepest directory reached with the part of the path not consumed. It
  stops with the rest unconsumed at a segment that names no child, and as soon as it is
  in a mount point. The empty path resolves to the root with no remainder.
\<close>

fun lookup_segments :: "Directory \<Rightarrow> nat list \<Rightarrow> string list \<Rightarrow> string list \<Rightarrow> LookupResult" where
  "lookup_segments d p names [] =
     \<lparr> directory = p, node = d, node_path = join_path names, uri = None \<rparr>"
| "lookup_segments d p names (seg # segs) =
     (if IsMount d
      then \<lparr> directory = p, node = d, node_path = join_path names,
             uri = Some (join_path (seg # segs)) \<rparr>
      else (case FindChild d seg of
              None \<Rightarrow> \<lparr> directory = p, node = d, node_path = join_path names,
                         uri = Some (join_path (seg # segs)) \<rparr>
            | Some i \<Rightarrow> lookup_segments (children d ! i) (p @ [i]) (names @ [seg]) segs))"

definition LookupDirectory :: "Directory \<Rightarrow> string \<Rightarrow> LookupResult" where
  "LookupDirectory rt uri_utf8 =
     (if uri_utf8 = []
      then \<lparr> directory = [], node = rt, node_path = [], uri = None \<rparr>
      else lookup_segments rt [] [] (split_path uri_utf8))"

text \<open>\<^verbatim>\<open>strchr(s, '/') != nullptr\<close>.\<close>

definition has_slash :: "string \<Rightarrow> bool" where
  "has_slash s = (CHR ''/'' \<in> set s)"

subsection \<open>Objects on the heap\<close>

text \<open>
  A store holds the objects made by \<^verbatim>\<open>new\<close> and not yet deleted. An address is an index;
  \<^verbatim>\<open>new\<close> takes the next one, \<^verbatim>\<open>delete\<close> empties the cell.
\<close>

type_synonym 'a store = "'a option list"

definition store_get :: "'a store \<Rightarrow> nat \<Rightarrow> 'a option" where
  "store_get st a = (if a < length st then st ! a else None)"

definition store_new :: "'a store \<Rightarrow> 'a \<Rightarrow> nat \<times> 'a store" where
  "store_new st v = (length st, st @ [Some v])"

definition store_set :: "'a store \<Rightarrow> nat \<Rightarrow> 'a \<Rightarrow> 'a store" where
  "store_set st a v = st[a := Some v]"

definition store_delete :: "'a store \<Rightarrow> nat \<Rightarrow> 'a store" where
  "store_delete st a = st[a := None]"

subsection \<open>The database object\<close>

text \<open>
  The fields of \<^verbatim>\<open>SimpleDatabase\<close>. \<open>path\<close> and \<open>cache_path\<close> are \<open>None\<close> when
  \<^verbatim>\<open>IsNull()\<close>. \<open>root\<close> is \<open>None\<close> when the pointer refers to no tree (before
  \<^verbatim>\<open>Open\<close>, after \<^verbatim>\<open>delete root\<close>). \<open>light_song\<close> is the
  \<^verbatim>\<open>Manual<LightSong>\<close> slot, \<open>None\<close> while no object is constructed in it.
  \<open>prefixed_light_song\<close> is a pointer into the store of prefixed songs.
\<close>

record SimpleDatabase =
  path :: "string option"
  path_utf8 :: string
  compress :: bool
  cache_path :: "string option"
  root :: "Directory option"
  mtime :: int
  light_song :: "LightSong option"
  prefixed_light_song :: "nat option"
  borrowed_song_count :: nat

text \<open>
  A mounted database is an object of any class derived from \<^verbatim>\<open>Database\<close>: a
  \<^verbatim>\<open>SimpleDatabase\<close>, or one of another plugin, whose state is of type \<open>'f\<close>.
\<close>

datatype 'f Database = SimpleDb SimpleDatabase | OtherDb 'f

text \<open>
  The part of the heap the methods work on: the database objects that directories mount,
  and the \<^verbatim>\<open>PrefixedLightSong\<close> objects. \<open>destroyed\<close> is the history of the database
  objects deleted so far, each as it was when \<^verbatim>\<open>delete\<close> destroyed it, in the order of
  the deletions.
\<close>

record 'f heap =
  databases :: "'f Database store"
  prefixed_songs :: "LightSong store"
  destroyed :: "'f Database list"

text \<open>
  \<^verbatim>\<open>delete db\<close> for a \<^verbatim>\<open>Database *\<close>: the object is destroyed as it is and its cell is
  empty afterwards. The source deletes live objects only; on a pointer to no object the
  heap is left as it is.
\<close>

definition delete_database :: "nat \<Rightarrow> 'f heap \<Rightarrow> 'f heap" where
  "delete_database a hp =
     (case store_get (databases hp) a of
        None \<Rightarrow> hp
      | Some m \<Rightarrow> hp \<lparr> databases := store_delete (databases hp) a,
                          destroyed := destroyed hp @ [m] \<rparr>)"

text \<open>
  The virtual methods a \<^verbatim>\<open>SimpleDatabase\<close> calls on a mounted database through its
  \<^verbatim>\<open>Database *\<close>. What they do is the mounted object's matter; they are parameters of
  the embedding. A call has a result and may change the object it is called on.
  \<^verbatim>\<open>GetSong\<close> returns a pointer to a light song or null (here the light song or
  \<open>None\<close>), or throws; its argument may be null.
\<close>

record 'f Database_methods =
  db_GetSong :: "'f Database \<Rightarrow> string option \<Rightarrow> (error + LightSong option) \<times> 'f Database"
  db_Close :: "'f Database \<Rightarrow> (error + unit) \<times> 'f Database"

text \<open>
  The second constructor, lines 71 to 84. The fields it leaves without a value
  (\<open>root\<close>, \<open>mtime\<close>, \<open>borrowed_song_count\<close>) get one in \<^verbatim>\<open>Open\<close>.
\<close>

definition SimpleDatabase_ctor :: "string \<Rightarrow> bool \<Rightarrow> SimpleDatabase" where
  "SimpleDatabase_ctor p c =
     \<lparr> path = Some p, path_utf8 = p, compress = c, cache_path = None, root = None,
       mtime = 0, light_song = None, prefixed_light_song = None, borrowed_song_count = 0 \<rparr>"

text \<open>
  A \<^verbatim>\<open>const LightSong *\<close> that \<^verbatim>\<open>GetSong\<close> returns and \<^verbatim>\<open>ReturnSong\<close> takes: null, the
  address of the slot \<open>light_song\<close> of this database, or the address of a prefixed song.
\<close>

datatype LightSong_ptr = Null | Slot | Prefixed nat

text \<open>
  Modelled from the spec: \<^verbatim>\<open>Manual<LightSong>\<close>, the type of the slot, is declared outside
  the sources. The specification calls it the single reusable result slot: it is empty
  or holds one light song; \<^verbatim>\<open>Construct\<close> puts an object in and \<^verbatim>\<open>Destruct\<close> empties it.
  \<^verbatim>\<open>Get()\<close> gives the object in the slot, and the source takes its address. What
  \<^verbatim>\<open>Get()\<close> does on an empty slot the specification does not say, so it is a parameter
  of \<^verbatim>\<open>ReturnSong\<close>, which calls it on every path: \<open>checked\<close> is true when \<^verbatim>\<open>Get()\<close>
  asserts that the slot holds an object, and false when it gives the address of the
  storage whatever the slot holds.
\<close>

definition Manual_Get :: "bool \<Rightarrow> 'a option \<Rightarrow> error + unit" where
  "Manual_Get checked slot = (if checked \<and> slot = None then Inl AssertionFailed else Inr ())"

subsection \<open>Opening and closing\<close>

text \<open>
  The file system and the decoder of the database file are outside this class. They
  are parameters: \<open>PathExists\<close>; \<open>stat_file\<close>, what the constructor
  \<^verbatim>\<open>FileInfo(path)\<close> finds or throws (\<^verbatim>\<open>GetFileInfo\<close> is the same without the
  exception); \<open>CheckAccess\<close>; \<open>TextFile\<close>, the opened file or the exception of opening
  it; and \<open>db_load_internal\<close>, which fills the tree it is given in place and may throw
  with the tree partly filled.
\<close>

record FileInfo =
  IsRegular :: bool
  IsDirectory :: bool
  GetModificationTime :: int

datatype access_mode = R_OK | W_OK | X_OK

record FileSystem =
  PathExists :: "string \<Rightarrow> bool"
  stat_file :: "string \<Rightarrow> error + FileInfo"
  CheckAccess :: "string \<Rightarrow> access_mode set \<Rightarrow> bool"
  TextFile :: "string \<Rightarrow> error + string list"
  db_load_internal :: "string list \<Rightarrow> Directory \<Rightarrow> (error + unit) \<times> Directory"

text \<open>
  Modelled from the spec: \<^verbatim>\<open>AllocatedPath::GetDirectoryName\<close> is defined outside the
  sources; it gives the parent directory of a path, what stands before its last slash.
\<close>

definition GetDirectoryName :: "string \<Rightarrow> string" where
  "GetDirectoryName p =
     (if has_slash p
      then (let d = rev (tl (dropWhile (\<lambda>c. c \<noteq> CHR ''/'') (rev p)))
            in if d = [] then ''/'' else d)
      else ''.'')"

text \<open>
  Modelled from the spec: \<^verbatim>\<open>AllocatedPath::Build\<close> is defined outside the sources; the
  new database is at \<^verbatim>\<open>cache_directory/sanitized_name\<close>.
\<close>

definition Build :: "string \<Rightarrow> string \<Rightarrow> string" where
  "Build a b = a @ ''/'' @ b"

definition quoted :: "string \<Rightarrow> string" where
  "quoted s = CHR 0x22 # s @ [CHR 0x22]"

text \<open>
  \<^verbatim>\<open>SimpleDatabase::Check\<close>, lines 94 to 145.
\<close>

definition Check :: "FileSystem \<Rightarrow> SimpleDatabase \<Rightarrow> error + unit" where
  "Check fs db =
     (case path db of
        None \<Rightarrow> Inl AssertionFailed
      | Some p \<Rightarrow>
          \<comment> \<open>Check if the file exists\<close>
          if \<not> PathExists fs p
          then
            (let dirPath = GetDirectoryName p in
             \<comment> \<open>Check that the parent part of the path is a directory\<close>
             (case stat_file fs dirPath of
                Inl e \<Rightarrow> Inl (NestedError (RuntimeError ''On parent directory of db file'') e)
              | Inr fi \<Rightarrow>
                  if \<not> IsDirectory fi
                  then Inl (RuntimeError (''Couldn't create db file '' @ quoted (path_utf8 db)
                              @ '' because the parent path is not a directory''))
                  else if \<not> CheckAccess fs dirPath {X_OK, W_OK}
                  then Inl (SystemError (''Can't create db file in '' @ quoted dirPath))
                  else Inr ()))
          else
            \<comment> \<open>Path exists, now check if it is a regular file\<close>
            (case stat_file fs p of
               Inl e \<Rightarrow> Inl e
             | Inr fi \<Rightarrow>
                 if \<not> IsRegular fi
                 then Inl (RuntimeError (''db file '' @ quoted (path_utf8 db)
                             @ '' is not a regular file''))
                 else if \<not> CheckAccess fs p {R_OK, W_OK}
                 then Inl (SystemError (''Can't open db file '' @ quoted (path_utf8 db)
                             @ '' for reading/writing''))
                 else Inr ()))"

text \<open>
  The validation in the words of the specification: the file exists, is a regular file
  and can be read and written; or it does not exist, and its parent is a directory that
  can be written to and entered.
\<close>

definition Check_passes :: "FileSystem \<Rightarrow> string \<Rightarrow> bool" where
  "Check_passes fs p =
     (if PathExists fs p
      then (case stat_file fs p of Inl _ \<Rightarrow> False | Inr fi \<Rightarrow> IsRegular fi)
           \<and> CheckAccess fs p {R_OK, W_OK}
      else (case stat_file fs (GetDirectoryName p) of Inl _ \<Rightarrow> False | Inr fi \<Rightarrow> IsDirectory fi)
           \<and> CheckAccess fs (GetDirectoryName p) {X_OK, W_OK})"

text \<open>
  \<^verbatim>\<open>SimpleDatabase::Load\<close>, lines 147 to 162.
\<close>

definition Load :: "FileSystem \<Rightarrow> SimpleDatabase \<Rightarrow> (error + unit) \<times> SimpleDatabase" where
  "Load fs db =
     (case path db of
        None \<Rightarrow> (Inl AssertionFailed, db)
      | Some p \<Rightarrow>
          (case root db of
             None \<Rightarrow> (Inl AssertionFailed, db)
           | Some rt \<Rightarrow>
               (case TextFile fs p of
                  Inl e \<Rightarrow> (Inl e, db)
                | Inr file \<Rightarrow>
                    (case db_load_internal fs file rt of
                       (Inl e, rt') \<Rightarrow> (Inl e, db \<lparr> root := Some rt' \<rparr>)
                     | (Inr _, rt') \<Rightarrow>
                         (Inr (),
                          db \<lparr> root := Some rt',
                               mtime := (case stat_file fs p of
                                           Inl _ \<Rightarrow> mtime db
                                         | Inr fi \<Rightarrow> GetModificationTime fi) \<rparr>)))))"

text \<open>\<^verbatim>\<open>std::chrono::system_clock::time_point::min()\<close>, in ticks of a signed 64-bit clock.\<close>

definition time_point_min :: int where
  "time_point_min = - (2 ^ 63)"

text \<open>
  \<^verbatim>\<open>SimpleDatabase::Open\<close>, lines 164 to 187. The handler catches what derives from
  \<^verbatim>\<open>std::exception\<close>. After \<^verbatim>\<open>delete root\<close> the pointer refers to no tree.
\<close>

definition Open :: "FileSystem \<Rightarrow> SimpleDatabase \<Rightarrow> (error + unit) \<times> SimpleDatabase" where
  "Open fs db =
     (if prefixed_light_song db \<noteq> None then (Inl AssertionFailed, db)
      else
        (let db1 = db \<lparr> root := Some NewRoot, mtime := time_point_min,
                         borrowed_song_count := 0 \<rparr>
         in (case Load fs db1 of
               (Inr _, db2) \<Rightarrow> (Inr (), db2)
             | (Inl e, db2) \<Rightarrow>
                 if is_exception e
                 then
                   (let db3 = db2 \<lparr> root := None \<rparr>
                    in (case Check fs db3 of
                          Inl e' \<Rightarrow> (Inl e', db3)
                        | Inr _ \<Rightarrow> (Inr (), db3 \<lparr> root := Some NewRoot \<rparr>)))
                 else (Inl e, db2))))"

subsection \<open>Queries\<close>

text \<open>
  \<^verbatim>\<open>SimpleDatabase::GetSong\<close>, lines 199 to 247. The method is \<^verbatim>\<open>const\<close> and writes the
  \<^verbatim>\<open>mutable\<close> fields \<open>light_song\<close>, \<open>prefixed_light_song\<close> and
  \<open>borrowed_song_count\<close>.
\<close>

definition GetSong ::
  "'f Database_methods \<Rightarrow> string \<Rightarrow> SimpleDatabase \<times> 'f heap
     \<Rightarrow> (error + LightSong_ptr) \<times> SimpleDatabase \<times> 'f heap" where
  "GetSong vt uri_utf8 s =
     (case s of (db, hp) \<Rightarrow>
      (case root db of
         None \<Rightarrow> (Inl AssertionFailed, db, hp)
       | Some rt \<Rightarrow>
           if prefixed_light_song db \<noteq> None then (Inl AssertionFailed, db, hp)
           else if borrowed_song_count db \<noteq> 0 then (Inl AssertionFailed, db, hp)
           else
             let r = LookupDirectory rt uri_utf8 in
             (case mounted_database (node r) of
                Some a \<Rightarrow>
                  \<comment> \<open>pass the request to the mounted database\<close>
                  (case store_get (databases hp) a of
                     None \<Rightarrow> (Inl InvalidPointer, db, hp)
                   | Some m \<Rightarrow>
                       (case db_GetSong vt m (LookupResult.uri r) of
                          (Inl e, m') \<Rightarrow>
                            (Inl e, db, hp \<lparr> databases := store_set (databases hp) a m' \<rparr>)
                        | (Inr None, m') \<Rightarrow>
                            (Inr Null, db, hp \<lparr> databases := store_set (databases hp) a m' \<rparr>)
                        | (Inr (Some song), m') \<Rightarrow>
                            (case store_new (prefixed_songs hp)
                                    (PrefixedLightSong song (node_path r)) of
                               (w, ps) \<Rightarrow>
                                 (Inr (Prefixed w),
                                  db \<lparr> prefixed_light_song := Some w \<rparr>,
                                  hp \<lparr> databases := store_set (databases hp) a m',
                                       prefixed_songs := ps \<rparr>))))
              | None \<Rightarrow>
                  (case LookupResult.uri r of
                     None \<Rightarrow>
                       \<comment> \<open>it is a directory\<close>
                       (Inl (DatabaseError NOT_FOUND ''No such song''), db, hp)
                   | Some u \<Rightarrow>
                       if has_slash u
                       then \<comment> \<open>refers to a URI below the actual song\<close>
                         (Inl (DatabaseError NOT_FOUND ''No such song''), db, hp)
                       else
                         (case FindSong (node r) u of
                            None \<Rightarrow> (Inl (DatabaseError NOT_FOUND ''No such song''), db, hp)
                          | Some song \<Rightarrow>
                              (Inr Slot,
                               db \<lparr> light_song := Some (Export (node_path r) song),
                                    borrowed_song_count := borrowed_song_count db + 1 \<rparr>,
                               hp))))))"

text \<open>
  \<^verbatim>\<open>SimpleDatabase::ReturnSong\<close>, lines 249 to 266. The assertion of line 253 evaluates
  \<^verbatim>\<open>light_song.Get()\<close> first, whatever \<open>song\<close> is.
\<close>

definition ReturnSong ::
  "bool \<Rightarrow> LightSong_ptr \<Rightarrow> SimpleDatabase \<times> 'f heap
     \<Rightarrow> (error + unit) \<times> SimpleDatabase \<times> 'f heap" where
  "ReturnSong checked song s =
     (case s of (db, hp) \<Rightarrow>
      if song = Null then (Inl AssertionFailed, db, hp)
      else
        (case Manual_Get checked (light_song db) of
           Inl e \<Rightarrow> (Inl e, db, hp)
         | Inr _ \<Rightarrow>
             if \<not> (song = Slot
                    \<or> (case prefixed_light_song db of
                          None \<Rightarrow> False
                        | Some w \<Rightarrow> song = Prefixed w))
             then (Inl AssertionFailed, db, hp)
             else
               (case prefixed_light_song db of
                  Some w \<Rightarrow>
                    (Inr (), db \<lparr> prefixed_light_song := None \<rparr>,
                     hp \<lparr> prefixed_songs := store_delete (prefixed_songs hp) w \<rparr>)
                | None \<Rightarrow>
                    if \<not> borrowed_song_count db > 0 then (Inl AssertionFailed, db, hp)
                    else
                      (Inr (),
                       db \<lparr> borrowed_song_count := borrowed_song_count db - 1,
                            light_song := None \<rparr>,
                       hp))))"

text \<open>
  \<^verbatim>\<open>SimpleDatabase::Close\<close>, lines 189 to 197. After \<^verbatim>\<open>delete root\<close> the database has
  no tree. The destructor of \<^verbatim>\<open>Directory\<close> is outside the sources; what it does with
  databases still mounted in the tree is not modelled.
\<close>

definition Close :: "SimpleDatabase \<Rightarrow> (error + unit) \<times> SimpleDatabase" where
  "Close db =
     (if root db = None then (Inl AssertionFailed, db)
      else if prefixed_light_song db \<noteq> None then (Inl AssertionFailed, db)
      else if borrowed_song_count db \<noteq> 0 then (Inl AssertionFailed, db)
      else (Inr (), db \<lparr> root := None \<rparr>))"

subsection \<open>Visiting\<close>

text \<open>
  Modelled from the spec: \<^verbatim>\<open>DatabaseSelection\<close> is declared outside the sources. It has
  the path to start at, the recursion flag and the filter, a null pointer when every
  song is to be accepted; \<^verbatim>\<open>Match\<close> asks the filter.
\<close>

record DatabaseSelection =
  uri :: string
  recursive :: bool
  filter :: "(LightSong \<Rightarrow> bool) option"

definition Match :: "DatabaseSelection \<Rightarrow> LightSong \<Rightarrow> bool" where
  "Match selection song =
     (case filter selection of None \<Rightarrow> True | Some f \<Rightarrow> f song)"

text \<open>
  A visitor is a \<^verbatim>\<open>std::function\<close>, which may be empty; a call of a visitor is recorded
  with its argument, in the order of the calls. A light directory is given by its path.
\<close>

datatype visit = VisitDirectory string | VisitSong LightSong | VisitPlaylist string string

text \<open>
  \<^verbatim>\<open>Directory::Walk\<close> and \<^verbatim>\<open>WalkMount\<close> are defined outside the sources, and are
  parameters here. Each gets the three flags that say which visitors are there, and
  gives the calls it made and how it ended.
\<close>

record 'f walkers =
  Walk :: "Directory \<Rightarrow> string \<Rightarrow> bool \<Rightarrow> (LightSong \<Rightarrow> bool) option
             \<Rightarrow> bool \<Rightarrow> bool \<Rightarrow> bool \<Rightarrow> (error + unit) \<times> visit list"
  WalkMount :: "string \<Rightarrow> 'f Database \<Rightarrow> string \<Rightarrow> bool \<Rightarrow> (LightSong \<Rightarrow> bool) option
             \<Rightarrow> bool \<Rightarrow> bool \<Rightarrow> bool \<Rightarrow> (error + unit) \<times> visit list"

text \<open>
  \<^verbatim>\<open>SimpleDatabase::Visit\<close>, lines 268 to 316. \<open>visit_directory\<close>, \<open>visit_song\<close> and
  \<open>visit_playlist\<close> say whether the visitor is there. The result is how the call ended
  and the calls of visitors it made.
\<close>

definition Visit ::
  "'f walkers \<Rightarrow> SimpleDatabase \<Rightarrow> 'f heap \<Rightarrow> DatabaseSelection \<Rightarrow> bool \<Rightarrow> bool \<Rightarrow> bool
     \<Rightarrow> (error + unit) \<times> visit list" where
  "Visit wk db hp selection visit_directory visit_song visit_playlist =
     (case root db of
        None \<Rightarrow> (Inl InvalidPointer, [])
      | Some rt \<Rightarrow>
          let r = LookupDirectory rt (DatabaseSelection.uri selection) in
          (case mounted_database (node r) of
             Some a \<Rightarrow>
               \<comment> \<open>pass the request and the remaining uri to the mounted database\<close>
               (case store_get (databases hp) a of
                  None \<Rightarrow> (Inl InvalidPointer, [])
                | Some m \<Rightarrow>
                    WalkMount wk (node_path r) m
                      (case LookupResult.uri r of None \<Rightarrow> [] | Some u \<Rightarrow> u)
                      (recursive selection) (filter selection)
                      visit_directory visit_song visit_playlist)
           | None \<Rightarrow>
               (case LookupResult.uri r of
                  None \<Rightarrow>
                    \<comment> \<open>it is a directory\<close>
                    (let first = (if recursive selection \<and> visit_directory
                                  then [VisitDirectory (node_path r)] else [])
                     in (case Walk wk (node r) (node_path r) (recursive selection)
                                (filter selection) visit_directory visit_song visit_playlist of
                           (res, visits) \<Rightarrow> (res, first @ visits)))
                | Some u \<Rightarrow>
                    if \<not> has_slash u \<and> visit_song
                    then
                      (case FindSong (node r) u of
                         Some song \<Rightarrow>
                           (let song2 = Export (node_path r) song
                            in (Inr (), if Match selection song2 then [VisitSong song2] else []))
                       | None \<Rightarrow> (Inl (DatabaseError NOT_FOUND ''No such directory''), []))
                    else (Inl (DatabaseError NOT_FOUND ''No such directory''), []))))"

subsection \<open>Mounting\<close>

text \<open>
  \<^verbatim>\<open>SimpleDatabase::Mount(const char *uri, Database *db)\<close>, lines 379 to 402. Both
  pointers are taken as not null: \<open>uri_utf8\<close> is a string and \<open>a\<close> an address.
\<close>

definition Mount :: "string \<Rightarrow> nat \<Rightarrow> SimpleDatabase \<Rightarrow> (error + unit) \<times> SimpleDatabase" where
  "Mount uri_utf8 a db =
     (if uri_utf8 = [] then (Inl AssertionFailed, db)
      else
        (case root db of
           None \<Rightarrow> (Inl InvalidPointer, db)
         | Some rt \<Rightarrow>
             let r = LookupDirectory rt uri_utf8 in
             (case LookupResult.uri r of
                None \<Rightarrow> (Inl (DatabaseError CONFLICT ''Already exists''), db)
              | Some u \<Rightarrow>
                  if has_slash u
                  then (Inl (DatabaseError NOT_FOUND ''Parent not found''), db)
                  else
                    (let rt1 = update_at rt (directory r) (\<lambda>d. CreateChild d u);
                         mnt = directory r @ [length (children (node r))];
                         rt2 = update_at rt1 mnt (set_mounted_database (Some a))
                     in (Inr (), db \<lparr> root := Some rt2 \<rparr>)))))"

text \<open>
  \<^verbatim>\<open>SimpleDatabase::LockUmountSteal\<close>, lines 452 to 466.
\<close>

definition LockUmountSteal :: "string \<Rightarrow> SimpleDatabase \<Rightarrow> (error + nat option) \<times> SimpleDatabase" where
  "LockUmountSteal uri_utf8 db =
     (case root db of
        None \<Rightarrow> (Inl InvalidPointer, db)
      | Some rt \<Rightarrow>
          let r = LookupDirectory rt uri_utf8 in
          if LookupResult.uri r \<noteq> None \<or> \<not> IsMount (node r) then (Inr None, db)
          else
            (let a = mounted_database (node r);
                 rt1 = update_at rt (directory r) (set_mounted_database None)
             in (case Delete rt1 (directory r) of
                   Inl e \<Rightarrow> (Inl e, db \<lparr> root := Some rt1 \<rparr>)
                 | Inr rt2 \<Rightarrow> (Inr a, db \<lparr> root := Some rt2 \<rparr>))))"

text \<open>
  \<^verbatim>\<open>SimpleDatabase::Unmount\<close>, lines 468 to 478.
\<close>

definition Unmount ::
  "'f Database_methods \<Rightarrow> string \<Rightarrow> SimpleDatabase \<times> 'f heap
     \<Rightarrow> (error + bool) \<times> SimpleDatabase \<times> 'f heap" where
  "Unmount vt uri_utf8 s =
     (case s of (db, hp) \<Rightarrow>
      (case LockUmountSteal uri_utf8 db of
         (Inl e, db') \<Rightarrow> (Inl e, db', hp)
       | (Inr None, db') \<Rightarrow> (Inr False, db', hp)
       | (Inr (Some a), db') \<Rightarrow>
           (case store_get (databases hp) a of
              None \<Rightarrow> (Inl InvalidPointer, db', hp)
            | Some m \<Rightarrow>
                (case db_Close vt m of
                   (Inl e, m') \<Rightarrow>
                     (Inl e, db', hp \<lparr> databases := store_set (databases hp) a m' \<rparr>)
                 | (Inr _, m') \<Rightarrow>
                     (Inr True, db',
                      delete_database a
                        (hp \<lparr> databases := store_set (databases hp) a m' \<rparr>))))))"

text \<open>
  \<^verbatim>\<open>SimpleDatabase::Mount(const char *local_uri, const char *storage_uri)\<close>, lines 416
  to 450. The handlers catch every exception. The name has safe characters only, all of
  them ASCII, so \<^verbatim>\<open>AllocatedPath::FromUTF8Throw\<close> has nothing to convert.
\<close>

definition Mount_storage ::
  "FileSystem \<Rightarrow> string \<Rightarrow> string \<Rightarrow> SimpleDatabase \<times> 'f heap
     \<Rightarrow> (error + unit) \<times> SimpleDatabase \<times> 'f heap" where
  "Mount_storage fs local_uri storage_uri s =
     (case s of (this, hp) \<Rightarrow>
      (case cache_path this of
         None \<Rightarrow>
           (Inl (DatabaseError NOT_FOUND ''No 'cache_directory' configured''), this, hp)
       | Some cache \<Rightarrow>
           (let name_fs = cache_mount_name storage_uri;
                db0 = SimpleDatabase_ctor (Build cache name_fs) (compress this)
            in (case store_new (databases hp) (SimpleDb db0) of
                  (a, dbs) \<Rightarrow>
                    (case Open fs db0 of
                       (Inl e, db1) \<Rightarrow>
                         (let hp1 = hp \<lparr> databases := store_set dbs a (SimpleDb db1) \<rparr>
                          in if is_exception e
                             then (Inl e, this, delete_database a hp1)
                             else (Inl e, this, hp1))
                     | (Inr _, db1) \<Rightarrow>
                         (let hp1 = hp \<lparr> databases := store_set dbs a (SimpleDb db1) \<rparr>
                          in (case Mount local_uri a this of
                                (Inl e, this') \<Rightarrow>
                                  if is_exception e
                                  then
                                    (case Close db1 of
                                       (Inl e', db2) \<Rightarrow>
                                         (Inl e', this',
                                          hp \<lparr> databases := store_set dbs a (SimpleDb db2) \<rparr>)
                                     | (Inr _, db2) \<Rightarrow>
                                         (Inl e, this',
                                          delete_database a
                                            (hp \<lparr> databases :=
                                                    store_set dbs a (SimpleDb db2) \<rparr>)))
                                  else (Inl e, this', hp1)
                              | (Inr _, this') \<Rightarrow> (Inr (), this', hp1))))))))"

subsection \<open>An example\<close>

text \<open>
  The tree of the specification's scenario, for the concrete instances of the theorems:
  a directory \<^verbatim>\<open>a\<close> with the song \<^verbatim>\<open>b.mp3\<close> and a mount at \<^verbatim>\<open>a/c\<close>, and a second
  mount at \<^verbatim>\<open>radio\<close>. The two mounted databases are of another plugin, each a table
  from paths to light songs: \<^verbatim>\<open>GetSong\<close> returns the entry of the path, or null. A mounted
  \<^verbatim>\<open>SimpleDatabase\<close> (one with no mounts of its own) answers with its own \<^verbatim>\<open>GetSong\<close>
  and \<^verbatim>\<open>Close\<close>.
\<close>

definition empty_heap :: "'f heap" where
  "empty_heap = \<lparr> databases = [], prefixed_songs = [], destroyed = [] \<rparr>"

definition no_mounts :: "'f Database_methods" where
  "no_mounts = \<lparr> db_GetSong = (\<lambda>m u. (Inl InvalidPointer, m)),
                 db_Close = (\<lambda>m. (Inl InvalidPointer, m)) \<rparr>"

definition example_methods :: "(string \<times> LightSong) list Database_methods" where
  "example_methods =
     \<lparr> db_GetSong = (\<lambda>m u.
         (case m of
            OtherDb table \<Rightarrow> (Inr (case u of None \<Rightarrow> None | Some n \<Rightarrow> map_of table n), m)
          | SimpleDb d \<Rightarrow>
              (case u of
                 None \<Rightarrow> (Inl InvalidPointer, m)
               | Some n \<Rightarrow>
                   (case GetSong (no_mounts :: unit Database_methods) n (d, empty_heap) of
                      (Inl e, d', _) \<Rightarrow> (Inl e, SimpleDb d')
                    | (Inr _, d', _) \<Rightarrow> (Inr (light_song d'), SimpleDb d'))))),
       db_Close = (\<lambda>m.
         (case m of
            OtherDb table \<Rightarrow> (Inr (), m)
          | SimpleDb d \<Rightarrow> (case Close d of (res, d') \<Rightarrow> (res, SimpleDb d')))) \<rparr>"

definition example_root :: Directory where
  "example_root =
     Directory []
       [Directory ''a''
          [Directory ''c'' [] [] (Some 0)]
          [\<lparr> Song.uri = ''b.mp3'', Song.tag = [(''Title'', ''B'')] \<rparr>]
          None,
        Directory ''radio'' [] [] (Some 1)]
       [] None"

definition example_db :: SimpleDatabase where
  "example_db =
     \<lparr> path = Some ''/var/lib/mpd/db'', path_utf8 = ''/var/lib/mpd/db'', compress = False,
       cache_path = Some ''/cache'', root = Some example_root, mtime = 0, light_song = None,
       prefixed_light_song = None, borrowed_song_count = 0 \<rparr>"

definition example_heap :: "(string \<times> LightSong) list heap" where
  "example_heap =
     \<lparr> databases =
         [Some (OtherDb [(''x.ogg'',
             \<lparr> LightSong.directory = None, LightSong.uri = ''x.ogg'', LightSong.tag = [] \<rparr>)]),
          Some (OtherDb [(''news/y.ogg'',
             \<lparr> LightSong.directory = Some ''news'', LightSong.uri = ''y.ogg'',
               LightSong.tag = [] \<rparr>)])],
       prefixed_songs = [], destroyed = [] \<rparr>"

text \<open>
  Walkers that visit nothing, and two file systems. In both, the only thing that exists
  is the directory \<^verbatim>\<open>/cache\<close>, and no database file can be opened; in the first the
  directory can be written to, in the second nothing can.
\<close>

definition example_walkers :: "'f walkers" where
  "example_walkers =
     \<lparr> Walk = (\<lambda>d p rec flt vd vs vp. (Inr (), [])),
       WalkMount = (\<lambda>base m u rec flt vd vs vp. (Inr (), [])) \<rparr>"

definition example_fs :: FileSystem where
  "example_fs =
     \<lparr> PathExists = (\<lambda>p. p = ''/cache''),
       stat_file = (\<lambda>p. if p = ''/cache''
                          then Inr \<lparr> IsRegular = False, IsDirectory = True,
                                     GetModificationTime = 100 \<rparr>
                          else Inl (SystemError (''Failed to access '' @ p))),
       CheckAccess = (\<lambda>p mode. p = ''/cache''),
       TextFile = (\<lambda>p. Inl (SystemError (''Failed to open '' @ p))),
       db_load_internal = (\<lambda>file rt. (Inr (), rt)) \<rparr>"

definition example_fs_readonly :: FileSystem where
  "example_fs_readonly = example_fs \<lparr> CheckAccess := (\<lambda>p mode. False) \<rparr>"


text \<open>
  A second example: a database whose one directory, \<^verbatim>\<open>usb\<close>, mounts a
  \<^verbatim>\<open>SimpleDatabase\<close> with the song \<^verbatim>\<open>s.mp3\<close>; the mounted database as it is while that
  song is borrowed from it; and the prefixed song for \<^verbatim>\<open>usb/s.mp3\<close>.
\<close>

definition example_usb :: SimpleDatabase where
  "example_usb =
     \<lparr> path = Some ''/cache/usb'', path_utf8 = ''/cache/usb'', compress = False,
       cache_path = None,
       root = Some (Directory [] [] [\<lparr> Song.uri = ''s.mp3'', Song.tag = [] \<rparr>] None),
       mtime = 0, light_song = None, prefixed_light_song = None, borrowed_song_count = 0 \<rparr>"

definition example_usb_borrowed :: SimpleDatabase where
  "example_usb_borrowed =
     example_usb \<lparr> light_song := Some \<lparr> LightSong.directory = None, LightSong.uri = ''s.mp3'',
                                       LightSong.tag = [] \<rparr>,
                   borrowed_song_count := 1 \<rparr>"

definition example_host :: SimpleDatabase where
  "example_host = example_db \<lparr> root := Some (Directory [] [Directory ''usb'' [] [] (Some 0)] [] None) \<rparr>"

definition example_host_heap :: "(string \<times> LightSong) list heap" where
  "example_host_heap =
     \<lparr> databases = [Some (SimpleDb example_usb)], prefixed_songs = [], destroyed = [] \<rparr>"

definition example_usb_prefixed :: LightSong where
  "example_usb_prefixed =
     \<lparr> LightSong.directory = None, LightSong.uri = ''usb/s.mp3'', LightSong.tag = [] \<rparr>"

section \<open>Properties\<close>

subsection \<open>Pointers into the tree and path resolution\<close>

lemma deref_append: "deref rt (p @ q) = (case deref rt p of None \<Rightarrow> None | Some d \<Rightarrow> deref d q)"
  by (induction rt p rule: deref.induct) auto

lemma find_index_Some: "find_index P xs = Some i \<Longrightarrow> i < length xs \<and> P (xs ! i)"
  by (induction xs arbitrary: i) (auto split: if_splits)

lemma lookup_segments_deref:
  "deref rt p = Some d \<Longrightarrow>
   deref rt (directory (lookup_segments d p names segs)) = Some (node (lookup_segments d p names segs))"
proof (induction segs arbitrary: d p names)
  case Nil
  then show ?case by simp
next
  case (Cons seg segs)
  show ?case
  proof (cases "IsMount d \<or> FindChild d seg = None")
    case True
    with Cons.prems show ?thesis by auto
  next
    case False
    then obtain i where i: "FindChild d seg = Some i" and nm: "\<not> IsMount d" by auto
    then have "i < length (children d)"
      by (auto simp: FindChild_def dest: find_index_Some)
    with Cons.prems have "deref rt (p @ [i]) = Some (children d ! i)"
      by (simp add: deref_append)
    from Cons.IH [OF this] i nm show ?thesis by simp
  qed
qed

lemma update_at_append: "update_at rt (p @ q) f = update_at rt p (\<lambda>d. update_at d q f)"
  by (induction rt p f rule: update_at.induct) auto

lemma update_at_twice: "update_at (update_at rt p f) p g = update_at rt p (\<lambda>d. g (f d))"
  by (induction rt p f rule: update_at.induct) auto

lemma deref_update_at: "deref rt p = Some d \<Longrightarrow> deref (update_at rt p f) p = Some (f d)"
  by (induction rt p f rule: update_at.induct) (auto split: if_splits)

lemma split_path_nonempty: "split_path s \<noteq> []"
  by (induction s) (auto split: list.splits)

lemma join_path_Cons_char: "join_path ((c # s) # ss) = c # join_path (s # ss)"
  by (cases ss) simp_all

lemma join_split_path: "join_path (split_path s) = s"
proof (induction s)
  case Nil
  then show ?case by simp
next
  case (Cons c cs)
  obtain s ss where sp: "split_path cs = s # ss"
    using split_path_nonempty [of cs] by (cases "split_path cs") auto
  show ?case
  proof (cases "c = CHR ''/''")
    case True
    with Cons sp show ?thesis by simp
  next
    case False
    with Cons sp show ?thesis by (simp add: join_path_Cons_char)
  qed
qed

lemma join_path_has_slash: "segs \<noteq> [] \<Longrightarrow> \<not> has_slash (join_path (seg # segs)) \<Longrightarrow> False"
  by (cases segs) (auto simp: has_slash_def)

lemma lookup_segments_rest:
  "LookupResult.uri (lookup_segments d p names segs) = Some n \<Longrightarrow>
   \<exists>k < length segs. n = join_path (drop k segs)"
proof (induction segs arbitrary: d p names)
  case Nil
  then show ?case by simp
next
  case (Cons seg segs)
  show ?case
  proof (cases "IsMount d \<or> FindChild d seg = None")
    case True
    with Cons.prems have "n = join_path (drop 0 (seg # segs))" by (auto split: if_splits)
    then show ?thesis by blast
  next
    case False
    then obtain i where "FindChild d seg = Some i" "\<not> IsMount d" by auto
    with Cons.prems have "LookupResult.uri (lookup_segments (children d ! i) (p @ [i]) (names @ [seg]) segs) = Some n"
      by simp
    from Cons.IH [OF this] obtain k where "k < length segs" "n = join_path (drop k segs)" by blast
    then have "Suc k < length (seg # segs) \<and> n = join_path (drop (Suc k) (seg # segs))" by simp
    then show ?thesis by blast
  qed
qed

lemma LookupDirectory_rest_final:
  assumes "LookupResult.uri (LookupDirectory rt u) = Some n" and "\<not> has_slash n"
  shows "n = last (split_path u)"
proof -
  from assms(1) have ne: "u \<noteq> []" and
    l: "LookupResult.uri (lookup_segments rt [] [] (split_path u)) = Some n"
    by (auto simp: LookupDirectory_def split: if_splits)
  from lookup_segments_rest [OF l] obtain k where
    k: "k < length (split_path u)" "n = join_path (drop k (split_path u))" by blast
  then obtain seg segs where d: "drop k (split_path u) = seg # segs"
    by (cases "drop k (split_path u)") auto
  have "segs = []"
  proof (rule ccontr)
    assume "segs \<noteq> []"
    from join_path_has_slash [OF this] assms(2) k(2) d show False by simp
  qed
  with d k have "n = seg" and "drop k (split_path u) = [seg]" by simp_all
  moreover from this(2) k(1) have "last (split_path u) = seg"
    by (metis last_drop last_ConsL)
  ultimately show ?thesis by simp
qed

lemma LookupDirectory_deref:
  "deref rt (directory (LookupDirectory rt u)) = Some (node (LookupDirectory rt u))"
  by (simp add: LookupDirectory_def lookup_segments_deref)

subsection \<open>The name of a cache-backed mount\<close>

lemma length_replace_if: "length (replace_if p v xs) = length xs"
  by (induction xs) simp_all

lemma nth_replace_if:
  "i < length xs \<Longrightarrow> replace_if p v xs ! i = (if p (xs ! i) then v else xs ! i)"
proof (induction xs arbitrary: i)
  case Nil
  then show ?case by simp
next
  case (Cons x xs)
  then show ?case by (cases i) simp_all
qed

lemma set_replace_if:
  "c \<in> set (replace_if p v xs) \<Longrightarrow> c = v \<or> (c \<in> set xs \<and> \<not> p c)"
  by (induction xs) (auto split: if_splits)

lemma IsSafeChar_underscore: "IsSafeChar (CHR ''_'')"
  by (simp add: IsSafeChar_def)

text \<open>
  C4. The name of a cache-backed mount is a function of the storage identifier alone:
  it has the identifier's length, keeps every character that is alphanumeric, a hyphen,
  an underscore or a percent sign where it stands, and has an underscore in the place of
  every other character; every character of the name is alphanumeric, a hyphen, an
  underscore or a percent sign. The name is the value of a function of the identifier, so
  equal identifiers have equal names.
\<close>

theorem cache_mount_name_sanitized:
  "length (cache_mount_name s) = length s
   \<and> (\<forall>i < length s. cache_mount_name s ! i =
        (if IsAlphaNumericASCII (s ! i) \<or> s ! i = CHR ''-'' \<or> s ! i = CHR ''_'' \<or> s ! i = CHR ''%''
         then s ! i else CHR ''_''))
   \<and> (\<forall>c \<in> set (cache_mount_name s).
        IsAlphaNumericASCII c \<or> c = CHR ''-'' \<or> c = CHR ''_'' \<or> c = CHR ''%'')"
proof -
  have len: "length (cache_mount_name s) = length s"
    by (simp add: cache_mount_name_def length_replace_if)
  have nth: "\<forall>i < length s. cache_mount_name s ! i =
        (if IsAlphaNumericASCII (s ! i) \<or> s ! i = CHR ''-'' \<or> s ! i = CHR ''_'' \<or> s ! i = CHR ''%''
         then s ! i else CHR ''_'')"
    by (simp add: cache_mount_name_def nth_replace_if IsUnsafeChar_def IsSafeChar_def)
  have safe: "\<forall>c \<in> set (cache_mount_name s).
        IsAlphaNumericASCII c \<or> c = CHR ''-'' \<or> c = CHR ''_'' \<or> c = CHR ''%''"
  proof
    fix c
    assume "c \<in> set (cache_mount_name s)"
    then have "c = CHR ''_'' \<or> (c \<in> set s \<and> \<not> IsUnsafeChar c)"
      unfolding cache_mount_name_def by (rule set_replace_if)
    then have "IsSafeChar c"
      using IsSafeChar_underscore by (auto simp: IsUnsafeChar_def)
    then show "IsAlphaNumericASCII c \<or> c = CHR ''-'' \<or> c = CHR ''_'' \<or> c = CHR ''%''"
      by (simp add: IsSafeChar_def)
  qed
  from len nth safe show ?thesis by simp
qed

text \<open>
  The identifier of the specification's scenario, \<^verbatim>\<open>http://x/y:z\<close>: the name keeps
  the letter it starts with and has underscores for the colon and the slash after it.
\<close>

theorem cache_mount_name_sanitized_witness:
  "length (cache_mount_name ''http://x/y:z'') = 12
   \<and> cache_mount_name ''http://x/y:z'' ! 0 = CHR ''h''
   \<and> cache_mount_name ''http://x/y:z'' ! 4 = CHR ''_''
   \<and> cache_mount_name ''http://x/y:z'' ! 5 = CHR ''_''"
proof -
  note s = cache_mount_name_sanitized [of "''http://x/y:z''"]
  have alnum: "IsAlphaNumericASCII (CHR ''h'')" "\<not> IsAlphaNumericASCII (CHR '':'')"
    "\<not> IsAlphaNumericASCII (CHR ''/'')"
    by (simp_all add: IsAlphaNumericASCII_def IsUpperAlphaASCII_def IsLowerAlphaASCII_def
          IsDigitASCII_def)
  have len: "length (cache_mount_name ''http://x/y:z'') = 12"
    using s by simp
  have first: "cache_mount_name ''http://x/y:z'' ! 0 = CHR ''h''"
    using s alnum by simp
  have colon: "cache_mount_name ''http://x/y:z'' ! 4 = CHR ''_''"
    using s alnum by simp
  have slash: "cache_mount_name ''http://x/y:z'' ! 5 = CHR ''_''"
    using s alnum by simp
  from len first colon slash show ?thesis by simp
qed

subsection \<open>Getting a song\<close>

text \<open>
  C1. On a database that is open with no result outstanding, where the path resolves to
  a directory that is not a mount point: \<^verbatim>\<open>GetSong\<close> throws a \<^verbatim>\<open>NOT_FOUND\<close> error exactly
  when the resolution leaves no remainder, or the remainder has a slash, or the
  directory has no song of the remainder's name, and then it changes nothing. Otherwise
  it puts the exported song in the slot \<open>light_song\<close>, counts the borrow and returns
  the address of the slot.
\<close>

theorem GetSong_direct:
  assumes "root db = Some rt"
    and "prefixed_light_song db = None"
    and "borrowed_song_count db = 0"
    and "r = LookupDirectory rt u"
    and "\<not> IsMount (node r)"
  shows
    "((\<exists>msg. fst (GetSong vt u (db, hp)) = Inl (DatabaseError NOT_FOUND msg))
        \<longleftrightarrow> (LookupResult.uri r = None
             \<or> (\<exists>n. LookupResult.uri r = Some n
                     \<and> (has_slash n \<or> FindSong (node r) n = None))))
     \<and> ((\<exists>msg. fst (GetSong vt u (db, hp)) = Inl (DatabaseError NOT_FOUND msg))
          \<longrightarrow> snd (GetSong vt u (db, hp)) = (db, hp))
     \<and> (\<forall>n song. LookupResult.uri r = Some n \<and> \<not> has_slash n \<and> FindSong (node r) n = Some song
          \<longrightarrow> GetSong vt u (db, hp) =
                (Inr Slot,
                 db \<lparr> light_song := Some (Export (node_path r) song), borrowed_song_count := 1 \<rparr>,
                 hp))"
  using assms
  by (auto simp: GetSong_def IsMount_def Let_def split: option.splits)

lemmas lookup_defs =
  LookupDirectory_def FindChild_def FindSong_def IsMount_def has_slash_def

lemma example_lookup_song:
  "LookupDirectory example_root ''a/b.mp3'' =
     \<lparr> directory = [0],
       node = Directory ''a'' [Directory ''c'' [] [] (Some 0)]
                [\<lparr> Song.uri = ''b.mp3'', Song.tag = [(''Title'', ''B'')] \<rparr>] None,
       node_path = ''a'', uri = Some ''b.mp3'' \<rparr>"
  by (simp add: example_root_def lookup_defs)

lemma example_lookup_missing:
  "LookupDirectory example_root ''a/zz'' =
     \<lparr> directory = [0],
       node = Directory ''a'' [Directory ''c'' [] [] (Some 0)]
                [\<lparr> Song.uri = ''b.mp3'', Song.tag = [(''Title'', ''B'')] \<rparr>] None,
       node_path = ''a'', uri = Some ''zz'' \<rparr>"
  by (simp add: example_root_def lookup_defs)

text \<open>
  In the example, \<^verbatim>\<open>a/b.mp3\<close> is found and \<^verbatim>\<open>a/zz\<close> is not.
\<close>

theorem GetSong_direct_witness:
  "GetSong example_methods ''a/b.mp3'' (example_db, example_heap) =
     (Inr Slot,
      example_db \<lparr> light_song := Some \<lparr> LightSong.directory = Some ''a'',
                       LightSong.uri = ''b.mp3'', LightSong.tag = [(''Title'', ''B'')] \<rparr>,
                   borrowed_song_count := 1 \<rparr>,
      example_heap)
   \<and> (\<exists>msg. fst (GetSong example_methods ''a/zz'' (example_db, example_heap)) =
          Inl (DatabaseError NOT_FOUND msg))
   \<and> snd (GetSong example_methods ''a/zz'' (example_db, example_heap)) = (example_db, example_heap)"
proof -
  have found:
    "GetSong example_methods ''a/b.mp3'' (example_db, example_heap) =
       (Inr Slot,
        example_db \<lparr> light_song := Some \<lparr> LightSong.directory = Some ''a'',
                       LightSong.uri = ''b.mp3'', LightSong.tag = [(''Title'', ''B'')] \<rparr>,
                   borrowed_song_count := 1 \<rparr>,
        example_heap)"
    using GetSong_direct [of example_db example_root "LookupDirectory example_root ''a/b.mp3''"
        "''a/b.mp3''" example_methods example_heap]
    by (simp add: example_lookup_song) (simp add: example_db_def lookup_defs Export_def)
  have missing:
    "(\<exists>msg. fst (GetSong example_methods ''a/zz'' (example_db, example_heap)) =
          Inl (DatabaseError NOT_FOUND msg))
     \<and> snd (GetSong example_methods ''a/zz'' (example_db, example_heap)) = (example_db, example_heap)"
    using GetSong_direct [of example_db example_root "LookupDirectory example_root ''a/zz''"
        "''a/zz''" example_methods example_heap]
    by (simp add: example_lookup_missing) (simp add: example_db_def lookup_defs)
  from found missing show ?thesis by simp
qed

subsection \<open>A song absent from a mounted database\<close>

text \<open>
  C10. On a database that is open with no result outstanding: when the path resolves
  to a mount point and the \<^verbatim>\<open>GetSong\<close> of the mounted database returns null,
  \<^verbatim>\<open>GetSong\<close> returns null and throws nothing. This is the only way it returns null:
  where the resolution ends in a directory that is not a mount point, it returns the
  slot or throws \<^verbatim>\<open>NOT_FOUND\<close>.
\<close>

theorem GetSong_mount_absent:
  assumes "root db = Some rt"
    and "prefixed_light_song db = None"
    and "borrowed_song_count db = 0"
    and "r = LookupDirectory rt u"
  shows
    "(\<forall>a m m'. mounted_database (node r) = Some a \<and> store_get (databases hp) a = Some m
          \<and> db_GetSong vt m (LookupResult.uri r) = (Inr None, m')
        \<longrightarrow> GetSong vt u (db, hp) =
              (Inr Null, db, hp \<lparr> databases := store_set (databases hp) a m' \<rparr>))
     \<and> (fst (GetSong vt u (db, hp)) = Inr Null
        \<longrightarrow> (\<exists>a m m'. mounted_database (node r) = Some a \<and> store_get (databases hp) a = Some m
                \<and> db_GetSong vt m (LookupResult.uri r) = (Inr None, m')))
     \<and> (\<not> IsMount (node r)
        \<longrightarrow> fst (GetSong vt u (db, hp)) = Inr Slot
            \<or> fst (GetSong vt u (db, hp)) = Inl (DatabaseError NOT_FOUND ''No such song''))"
  using assms
  by (auto simp: GetSong_def IsMount_def Let_def split: option.splits sum.splits prod.splits)

lemma example_lookup_mount:
  "LookupDirectory example_root ''a/c/zz'' =
     \<lparr> directory = [0, 0], node = Directory ''c'' [] [] (Some 0),
       node_path = ''a/c'', uri = Some ''zz'' \<rparr>"
  by (simp add: example_root_def lookup_defs)

text \<open>
  In the example, the database mounted at \<^verbatim>\<open>a/c\<close> has no \<^verbatim>\<open>zz\<close>.
\<close>

theorem GetSong_mount_absent_witness:
  "GetSong example_methods ''a/c/zz'' (example_db, example_heap) =
     (Inr Null, example_db, example_heap)"
proof -
  have "GetSong example_methods ''a/c/zz'' (example_db, example_heap) =
     (Inr Null, example_db,
      example_heap \<lparr> databases := store_set (databases example_heap) 0
         (OtherDb [(''x.ogg'',
             \<lparr> LightSong.directory = None, LightSong.uri = ''x.ogg'', LightSong.tag = [] \<rparr>)]) \<rparr>)"
    using GetSong_mount_absent [of example_db example_root
        "LookupDirectory example_root ''a/c/zz''" "''a/c/zz''" example_heap example_methods]
    by (simp add: example_lookup_mount)
       (simp add: example_db_def example_heap_def example_methods_def store_get_def)
  then show ?thesis
    by (simp add: example_heap_def store_set_def)
qed

subsection \<open>Mounting a database\<close>

lemma update_at_cong_deref:
  "deref rt p = Some d \<Longrightarrow> f d = g d \<Longrightarrow> update_at rt p f = update_at rt p g"
  by (induction rt p f rule: update_at.induct) (auto split: if_splits)

lemma Mount_tree:
  assumes "deref rt p = Some d"
  shows "update_at (update_at rt p (\<lambda>d. CreateChild d n)) (p @ [length (children d)])
           (set_mounted_database (Some a))
         = update_at rt p (\<lambda>d. Directory (name d) (children d @ [Directory n [] [] (Some a)])
                                  (songs d) (mounted_database d))"
proof -
  have "update_at (update_at rt p (\<lambda>d. CreateChild d n)) (p @ [length (children d)])
           (set_mounted_database (Some a))
        = update_at rt p (\<lambda>x. update_at (CreateChild x n) [length (children d)]
                                 (set_mounted_database (Some a)))"
    by (simp add: update_at_append update_at_twice)
  also have "\<dots> = update_at rt p (\<lambda>d. Directory (name d) (children d @ [Directory n [] [] (Some a)])
                                  (songs d) (mounted_database d))"
    by (rule update_at_cong_deref [OF assms])
       (simp add: CreateChild_def set_mounted_database_def)
  finally show ?thesis .
qed

text \<open>
  C2. For a path that is not empty, on an open database: \<^verbatim>\<open>Mount\<close> throws
  \<^verbatim>\<open>CONFLICT\<close> when the resolution leaves no remainder and \<^verbatim>\<open>NOT_FOUND\<close> when the
  remainder has a slash, and changes nothing. Otherwise the remainder is the last
  segment of the path, and \<^verbatim>\<open>Mount\<close> appends to the children of the directory the
  resolution ended in a new directory of that name, with no children and no songs, that
  mounts the given database; nothing else in the tree changes.
\<close>

theorem Mount_outcomes:
  assumes "u \<noteq> []"
    and "root db = Some rt"
    and "r = LookupDirectory rt u"
  shows
    "(LookupResult.uri r = None
        \<longrightarrow> Mount u a db = (Inl (DatabaseError CONFLICT ''Already exists''), db))
     \<and> (\<forall>n. LookupResult.uri r = Some n \<and> has_slash n
        \<longrightarrow> Mount u a db = (Inl (DatabaseError NOT_FOUND ''Parent not found''), db))
     \<and> (\<forall>n. LookupResult.uri r = Some n \<and> \<not> has_slash n
        \<longrightarrow> n = last (split_path u)
            \<and> Mount u a db =
                (Inr (),
                 db \<lparr> root := Some (update_at rt (directory r)
                          (\<lambda>d. Directory (name d) (children d @ [Directory n [] [] (Some a)])
                                  (songs d) (mounted_database d))) \<rparr>)
            \<and> deref (update_at rt (directory r)
                          (\<lambda>d. Directory (name d) (children d @ [Directory n [] [] (Some a)])
                                  (songs d) (mounted_database d))) (directory r)
                = Some (Directory (name (node r))
                          (children (node r) @ [Directory n [] [] (Some a)])
                          (songs (node r)) (mounted_database (node r))))"
proof -
  have d: "deref rt (directory r) = Some (node r)"
    using assms(3) by (simp add: LookupDirectory_deref)
  have conflict: "LookupResult.uri r = None
        \<longrightarrow> Mount u a db = (Inl (DatabaseError CONFLICT ''Already exists''), db)"
    using assms by (simp add: Mount_def Let_def)
  have parent: "\<forall>n. LookupResult.uri r = Some n \<and> has_slash n
        \<longrightarrow> Mount u a db = (Inl (DatabaseError NOT_FOUND ''Parent not found''), db)"
    using assms by (simp add: Mount_def Let_def)
  have created: "\<forall>n. LookupResult.uri r = Some n \<and> \<not> has_slash n
        \<longrightarrow> n = last (split_path u)
            \<and> Mount u a db =
                (Inr (),
                 db \<lparr> root := Some (update_at rt (directory r)
                          (\<lambda>d. Directory (name d) (children d @ [Directory n [] [] (Some a)])
                                  (songs d) (mounted_database d))) \<rparr>)
            \<and> deref (update_at rt (directory r)
                          (\<lambda>d. Directory (name d) (children d @ [Directory n [] [] (Some a)])
                                  (songs d) (mounted_database d))) (directory r)
                = Some (Directory (name (node r))
                          (children (node r) @ [Directory n [] [] (Some a)])
                          (songs (node r)) (mounted_database (node r)))"
  proof (intro allI impI, elim conjE)
    fix n
    assume n: "LookupResult.uri r = Some n" and ns: "\<not> has_slash n"
    have fin: "n = last (split_path u)"
      using n ns assms(3) by (simp add: LookupDirectory_rest_final)
    have m: "Mount u a db =
                (Inr (),
                 db \<lparr> root := Some (update_at rt (directory r)
                          (\<lambda>d. Directory (name d) (children d @ [Directory n [] [] (Some a)])
                                  (songs d) (mounted_database d))) \<rparr>)"
      using assms n ns Mount_tree [OF d, of n a]
      by (simp add: Mount_def Let_def)
    from fin m deref_update_at [OF d]
    show "n = last (split_path u)
            \<and> Mount u a db =
                (Inr (),
                 db \<lparr> root := Some (update_at rt (directory r)
                          (\<lambda>d. Directory (name d) (children d @ [Directory n [] [] (Some a)])
                                  (songs d) (mounted_database d))) \<rparr>)
            \<and> deref (update_at rt (directory r)
                          (\<lambda>d. Directory (name d) (children d @ [Directory n [] [] (Some a)])
                                  (songs d) (mounted_database d))) (directory r)
                = Some (Directory (name (node r))
                          (children (node r) @ [Directory n [] [] (Some a)])
                          (songs (node r)) (mounted_database (node r)))"
      by simp
  qed
  from conflict parent created show ?thesis by blast
qed

lemma example_lookup_new:
  "LookupDirectory example_root ''a/new'' =
     \<lparr> directory = [0],
       node = Directory ''a'' [Directory ''c'' [] [] (Some 0)]
                [\<lparr> Song.uri = ''b.mp3'', Song.tag = [(''Title'', ''B'')] \<rparr>] None,
       node_path = ''a'', uri = Some ''new'' \<rparr>"
  by (simp add: example_root_def lookup_defs)

lemma example_lookup_dir:
  "LookupDirectory example_root ''a'' =
     \<lparr> directory = [0],
       node = Directory ''a'' [Directory ''c'' [] [] (Some 0)]
                [\<lparr> Song.uri = ''b.mp3'', Song.tag = [(''Title'', ''B'')] \<rparr>] None,
       node_path = ''a'', uri = None \<rparr>"
  by (simp add: example_root_def lookup_defs)

lemma example_lookup_deep:
  "LookupDirectory example_root ''x/y'' =
     \<lparr> directory = [], node = example_root, node_path = [], uri = Some ''x/y'' \<rparr>"
  by (simp add: example_root_def lookup_defs)

text \<open>
  In the example, \<^verbatim>\<open>a\<close> exists, \<^verbatim>\<open>x/y\<close> has no parent, and \<^verbatim>\<open>a/new\<close> is mounted
  below \<^verbatim>\<open>a\<close>.
\<close>

theorem Mount_outcomes_witness:
  "Mount ''a'' 7 example_db = (Inl (DatabaseError CONFLICT ''Already exists''), example_db)
   \<and> Mount ''x/y'' 7 example_db = (Inl (DatabaseError NOT_FOUND ''Parent not found''), example_db)
   \<and> Mount ''a/new'' 7 example_db =
       (Inr (),
        example_db \<lparr> root := Some
          (Directory []
             [Directory ''a''
                [Directory ''c'' [] [] (Some 0), Directory ''new'' [] [] (Some 7)]
                [\<lparr> Song.uri = ''b.mp3'', Song.tag = [(''Title'', ''B'')] \<rparr>]
                None,
              Directory ''radio'' [] [] (Some 1)]
             [] None) \<rparr>)"
proof -
  have c: "Mount ''a'' 7 example_db = (Inl (DatabaseError CONFLICT ''Already exists''), example_db)"
    using Mount_outcomes [of "''a''" example_db example_root
        "LookupDirectory example_root ''a''" 7]
    by (simp add: example_lookup_dir) (simp add: example_db_def)
  have p: "Mount ''x/y'' 7 example_db =
             (Inl (DatabaseError NOT_FOUND ''Parent not found''), example_db)"
    using Mount_outcomes [of "''x/y''" example_db example_root
        "LookupDirectory example_root ''x/y''" 7]
    by (simp add: example_lookup_deep) (simp add: example_db_def has_slash_def)
  have n: "Mount ''a/new'' 7 example_db =
       (Inr (),
        example_db \<lparr> root := Some
          (Directory []
             [Directory ''a''
                [Directory ''c'' [] [] (Some 0), Directory ''new'' [] [] (Some 7)]
                [\<lparr> Song.uri = ''b.mp3'', Song.tag = [(''Title'', ''B'')] \<rparr>]
                None,
              Directory ''radio'' [] [] (Some 1)]
             [] None) \<rparr>)"
    using Mount_outcomes [of "''a/new''" example_db example_root
        "LookupDirectory example_root ''a/new''" 7]
    by (simp add: example_lookup_new) (simp add: example_db_def has_slash_def example_root_def)
  from c p n show ?thesis by simp
qed

subsection \<open>Visiting a song\<close>

text \<open>
  C7. On an open database, where the path of the selection resolves to a directory that
  is not a mount point and leaves a remainder: if the remainder has no slash and names
  a song of the directory, the song visitor is called, once and with the exported song,
  exactly when it is there and the selection accepts the exported song, and no other
  visitor is called; the call returns when the song visitor is there and throws
  \<^verbatim>\<open>NOT_FOUND\<close> when it is not. If the remainder has a slash or names no song of the
  directory, \<^verbatim>\<open>Visit\<close> throws \<^verbatim>\<open>NOT_FOUND\<close> and calls no visitor.
\<close>

theorem Visit_song:
  assumes "root db = Some rt"
    and "r = LookupDirectory rt (DatabaseSelection.uri selection)"
    and "\<not> IsMount (node r)"
    and "LookupResult.uri r = Some n"
  shows
    "(\<forall>song. \<not> has_slash n \<and> FindSong (node r) n = Some song
        \<longrightarrow> (snd (Visit wk db hp selection vd vs vp) = [VisitSong (Export (node_path r) song)]
               \<longleftrightarrow> vs \<and> Match selection (Export (node_path r) song))
            \<and> (snd (Visit wk db hp selection vd vs vp) = []
               \<longleftrightarrow> \<not> (vs \<and> Match selection (Export (node_path r) song)))
            \<and> (vs \<longrightarrow> fst (Visit wk db hp selection vd vs vp) = Inr ())
            \<and> (\<not> vs \<longrightarrow> fst (Visit wk db hp selection vd vs vp)
                            = Inl (DatabaseError NOT_FOUND ''No such directory'')))
     \<and> (has_slash n \<or> FindSong (node r) n = None
        \<longrightarrow> Visit wk db hp selection vd vs vp
              = (Inl (DatabaseError NOT_FOUND ''No such directory''), []))"
  using assms
  by (auto simp: Visit_def IsMount_def Let_def split: option.splits)

text \<open>
  In the example, the song \<^verbatim>\<open>a/b.mp3\<close> is visited and \<^verbatim>\<open>a/zz\<close> is not found.
\<close>

theorem Visit_song_witness:
  "Visit example_walkers example_db example_heap
     \<lparr> DatabaseSelection.uri = ''a/b.mp3'', recursive = False, filter = None \<rparr> True True True
   = (Inr (), [VisitSong \<lparr> LightSong.directory = Some ''a'', LightSong.uri = ''b.mp3'',
                           LightSong.tag = [(''Title'', ''B'')] \<rparr>])
   \<and> Visit example_walkers example_db example_heap
     \<lparr> DatabaseSelection.uri = ''a/zz'', recursive = False, filter = None \<rparr> True True True
   = (Inl (DatabaseError NOT_FOUND ''No such directory''), [])"
proof -
  let ?sel = "\<lparr> DatabaseSelection.uri = ''a/b.mp3'', recursive = False, filter = None \<rparr>"
  let ?song = "\<lparr> Song.uri = ''b.mp3'', Song.tag = [(''Title'', ''B'')] \<rparr>"
  have "snd (Visit example_walkers example_db example_heap ?sel True True True)
          = [VisitSong (Export ''a'' ?song)]
        \<and> fst (Visit example_walkers example_db example_heap ?sel True True True) = Inr ()"
    using Visit_song [of example_db example_root "LookupDirectory example_root ''a/b.mp3''"
        ?sel "''b.mp3''" example_walkers example_heap True True True]
    by (simp add: example_lookup_song) (simp add: example_db_def lookup_defs Match_def)
  then have found: "Visit example_walkers example_db example_heap ?sel True True True
          = (Inr (), [VisitSong (Export ''a'' ?song)])"
    by (simp add: prod_eq_iff)
  let ?sel2 = "\<lparr> DatabaseSelection.uri = ''a/zz'', recursive = False, filter = None \<rparr>"
  have missing: "Visit example_walkers example_db example_heap ?sel2 True True True
          = (Inl (DatabaseError NOT_FOUND ''No such directory''), [])"
    using Visit_song [of example_db example_root "LookupDirectory example_root ''a/zz''"
        ?sel2 "''zz''" example_walkers example_heap True True True]
    by (simp add: example_lookup_missing) (simp add: example_db_def lookup_defs)
  from found missing show ?thesis by (simp add: Export_def)
qed

subsection \<open>Opening when loading fails\<close>

lemma Load_fails_root:
  "Load fs d = (Inl e, d') \<Longrightarrow> d' \<lparr> root := x \<rparr> = d \<lparr> root := x \<rparr>"
  by (auto simp: Load_def split: option.splits sum.splits prod.splits)

lemma Check_cong:
  "path a = path b \<Longrightarrow> path_utf8 a = path_utf8 b \<Longrightarrow> Check fs a = Check fs b"
  by (auto simp: Check_def Let_def split: option.splits sum.splits)

lemma Check_iff:
  "path d = Some p \<Longrightarrow> Check fs d = Inr () \<longleftrightarrow> Check_passes fs p"
  by (auto simp: Check_def Check_passes_def Let_def split: sum.splits)

text \<open>
  C6. When \<^verbatim>\<open>Load\<close> throws in \<^verbatim>\<open>Open\<close>: \<^verbatim>\<open>Check\<close> passes exactly when the
  validation of the specification holds; if it passes, \<^verbatim>\<open>Open\<close> returns with a new
  empty root in the place of the tree \<^verbatim>\<open>Load\<close> left; if it throws, \<^verbatim>\<open>Open\<close> throws
  the same error and the database has no tree.
\<close>

theorem Open_fallback:
  assumes "prefixed_light_song db = None"
    and "path db = Some p"
    and "fst (Load fs (db \<lparr> root := Some NewRoot, mtime := time_point_min,
                             borrowed_song_count := 0 \<rparr>)) = Inl e"
    and "is_exception e"
  shows
    "(Check fs db = Inr () \<longleftrightarrow> Check_passes fs p)
     \<and> (Check fs db = Inr ()
        \<longrightarrow> Open fs db = (Inr (), db \<lparr> root := Some NewRoot, mtime := time_point_min,
                                         borrowed_song_count := 0 \<rparr>))
     \<and> (\<forall>e'. Check fs db = Inl e'
        \<longrightarrow> fst (Open fs db) = Inl e' \<and> root (snd (Open fs db)) = None)"
proof -
  let ?db1 = "db \<lparr> root := Some NewRoot, mtime := time_point_min, borrowed_song_count := 0 \<rparr>"
  obtain db2 where l: "Load fs ?db1 = (Inl e, db2)"
    using assms(3) by (cases "Load fs ?db1") auto
  have none: "db2 \<lparr> root := None \<rparr> = ?db1 \<lparr> root := None \<rparr>"
    by (rule Load_fails_root [OF l])
  have new: "db2 \<lparr> root := Some NewRoot \<rparr> = ?db1"
    using Load_fails_root [OF l, of "Some NewRoot"] by simp
  have chk: "Check fs (db2 \<lparr> root := None \<rparr>) = Check fs db"
    by (rule Check_cong) (simp_all add: none)
  have o: "Open fs db =
     (case Check fs db of
        Inl e' \<Rightarrow> (Inl e', db2 \<lparr> root := None \<rparr>)
      | Inr _ \<Rightarrow> (Inr (), ?db1))"
    using assms(1,4) l chk new
    by (simp add: Open_def Let_def split: sum.splits)
  show ?thesis
    using assms(2) by (simp add: o Check_iff [symmetric])
qed

text \<open>
  In the example file systems no file can be opened. Where the cache directory can be
  written to, \<^verbatim>\<open>Open\<close> falls back to an empty root; where it cannot, \<^verbatim>\<open>Open\<close>
  throws the error of \<^verbatim>\<open>Check\<close>.
\<close>

theorem Open_fallback_witness:
  "Open example_fs (SimpleDatabase_ctor ''/cache/x'' False) =
     (Inr (), (SimpleDatabase_ctor ''/cache/x'' False)
                \<lparr> root := Some NewRoot, mtime := time_point_min, borrowed_song_count := 0 \<rparr>)
   \<and> fst (Open example_fs_readonly (SimpleDatabase_ctor ''/cache/x'' False)) =
       Inl (SystemError (''Can't create db file in '' @ quoted ''/cache''))
   \<and> root (snd (Open example_fs_readonly (SimpleDatabase_ctor ''/cache/x'' False))) = None"
proof -
  let ?db = "SimpleDatabase_ctor ''/cache/x'' False"
  have dir: "GetDirectoryName ''/cache/x'' = ''/cache''"
    by (simp add: GetDirectoryName_def has_slash_def)
  have ok: "Open example_fs ?db =
     (Inr (), ?db \<lparr> root := Some NewRoot, mtime := time_point_min, borrowed_song_count := 0 \<rparr>)"
    using Open_fallback [of ?db "''/cache/x''" example_fs "SystemError ''Failed to open /cache/x''"]
    by (simp add: SimpleDatabase_ctor_def Load_def example_fs_def Check_def dir)
  have bad: "fst (Open example_fs_readonly ?db) =
       Inl (SystemError (''Can't create db file in '' @ quoted ''/cache''))
     \<and> root (snd (Open example_fs_readonly ?db)) = None"
    using Open_fallback [of ?db "''/cache/x''" example_fs_readonly
        "SystemError ''Failed to open /cache/x''"]
    by (simp add: SimpleDatabase_ctor_def Load_def example_fs_def example_fs_readonly_def
          Check_def dir)
  from ok bad show ?thesis by simp
qed

subsection \<open>Mounting a cache-backed database\<close>

lemma store_get_freed: "store_get (st @ [None]) = store_get st"
  by (rule ext) (simp add: store_get_def nth_append)

lemma delete_new_database:
  "delete_database (length (databases hp))
     (hp \<lparr> databases := store_set (databases hp @ [Some v]) (length (databases hp)) w \<rparr>)
   = hp \<lparr> databases := databases hp @ [None], destroyed := destroyed hp @ [w] \<rparr>"
  by (simp add: delete_database_def store_get_def store_set_def store_delete_def)

lemma Load_keeps:
  "Load fs d = (res, d') \<Longrightarrow>
   prefixed_light_song d' = prefixed_light_song d \<and> borrowed_song_count d' = borrowed_song_count d
   \<and> (root d \<noteq> None \<longrightarrow> root d' \<noteq> None)"
  by (auto simp: Load_def split: option.splits sum.splits prod.splits)

lemma Open_opened:
  assumes "Open fs d = (Inr x, d')"
  shows "root d' \<noteq> None \<and> prefixed_light_song d' = None \<and> borrowed_song_count d' = 0"
proof -
  let ?d1 = "d \<lparr> root := Some NewRoot, mtime := time_point_min, borrowed_song_count := 0 \<rparr>"
  from assms have p: "prefixed_light_song d = None"
    by (auto simp: Open_def split: if_splits)
  obtain res d2 where l: "Load fs ?d1 = (res, d2)" by (cases "Load fs ?d1")
  from Load_keeps [OF l] p
  have k: "prefixed_light_song d2 = None" "borrowed_song_count d2 = 0" "root d2 \<noteq> None"
    by simp_all
  from assms p l k show ?thesis
    by (auto simp: Open_def Let_def split: sum.splits if_splits)
qed

lemma Close_opened:
  "root d \<noteq> None \<Longrightarrow> prefixed_light_song d = None \<Longrightarrow> borrowed_song_count d = 0 \<Longrightarrow>
   Close d = (Inr (), d \<lparr> root := None \<rparr>)"
  by (simp add: Close_def)

lemma Mount_fails_unchanged: "Mount u a d = (Inl e, d') \<Longrightarrow> d' = d"
  by (auto simp: Mount_def Let_def split: if_splits option.splits)

text \<open>
  C3. The cache-backed \<^verbatim>\<open>Mount\<close> with no cache directory configured throws
  \<^verbatim>\<open>NOT_FOUND\<close> and changes nothing. Whenever it throws, the mounting database is as
  it was, so no mount point was added, and the live database objects are those that
  were there before, so the new object is gone. When \<^verbatim>\<open>Open\<close> of the new database
  fails, its error is the error of \<^verbatim>\<open>Mount\<close>, and the new object has been deleted as
  \<^verbatim>\<open>Open\<close> left it. When \<^verbatim>\<open>Open\<close> returns and \<^verbatim>\<open>Mount\<close> of the opened database
  fails, its error is the error thrown; the new object was open (it had a tree),
  \<^verbatim>\<open>Close\<close> has closed it (it has no tree), and it has been deleted closed.
\<close>

theorem Mount_storage_atomic:
  "(cache_path this = None
      \<longrightarrow> Mount_storage fs local_uri storage_uri (this, hp) =
            (Inl (DatabaseError NOT_FOUND ''No 'cache_directory' configured''), this, hp))
   \<and> (\<forall>e this' hp'. Mount_storage fs local_uri storage_uri (this, hp) = (Inl e, this', hp')
         \<and> is_exception e
      \<longrightarrow> this' = this \<and> store_get (databases hp') = store_get (databases hp)
          \<and> prefixed_songs hp' = prefixed_songs hp)
   \<and> (\<forall>cache e db1. cache_path this = Some cache
         \<and> Open fs (SimpleDatabase_ctor (Build cache (cache_mount_name storage_uri))
                      (compress this)) = (Inl e, db1)
      \<longrightarrow> fst (Mount_storage fs local_uri storage_uri (this, hp)) = Inl e
          \<and> (is_exception e
              \<longrightarrow> Mount_storage fs local_uri storage_uri (this, hp) =
                    (Inl e, this,
                     hp \<lparr> databases := databases hp @ [None],
                          destroyed := destroyed hp @ [SimpleDb db1] \<rparr>)))
   \<and> (\<forall>cache e db1. cache_path this = Some cache
         \<and> Open fs (SimpleDatabase_ctor (Build cache (cache_mount_name storage_uri))
                      (compress this)) = (Inr (), db1)
         \<and> fst (Mount local_uri (length (databases hp)) this) = Inl e
      \<longrightarrow> fst (Mount_storage fs local_uri storage_uri (this, hp)) = Inl e
          \<and> (is_exception e
              \<longrightarrow> root db1 \<noteq> None
                  \<and> Close db1 = (Inr (), db1 \<lparr> root := None \<rparr>)
                  \<and> Mount_storage fs local_uri storage_uri (this, hp) =
                      (Inl e, this,
                       hp \<lparr> databases := databases hp @ [None],
                            destroyed := destroyed hp @ [SimpleDb (db1 \<lparr> root := None \<rparr>)] \<rparr>)))"
proof -
  let ?M = "Mount_storage fs local_uri storage_uri (this, hp)"
  let ?a = "length (databases hp)"
  have unconfigured: "cache_path this = None
      \<longrightarrow> ?M = (Inl (DatabaseError NOT_FOUND ''No 'cache_directory' configured''), this, hp)"
    by (simp add: Mount_storage_def)
  have open_fails: "\<forall>cache e db1. cache_path this = Some cache
         \<and> Open fs (SimpleDatabase_ctor (Build cache (cache_mount_name storage_uri))
                      (compress this)) = (Inl e, db1)
      \<longrightarrow> fst ?M = Inl e
          \<and> (is_exception e
              \<longrightarrow> ?M = (Inl e, this,
                     hp \<lparr> databases := databases hp @ [None],
                          destroyed := destroyed hp @ [SimpleDb db1] \<rparr>))"
    by (simp add: Mount_storage_def Let_def store_new_def delete_new_database)
  have mount_fails: "\<forall>cache e db1. cache_path this = Some cache
         \<and> Open fs (SimpleDatabase_ctor (Build cache (cache_mount_name storage_uri))
                      (compress this)) = (Inr (), db1)
         \<and> fst (Mount local_uri ?a this) = Inl e
      \<longrightarrow> fst ?M = Inl e
          \<and> (is_exception e
              \<longrightarrow> root db1 \<noteq> None
                  \<and> Close db1 = (Inr (), db1 \<lparr> root := None \<rparr>)
                  \<and> ?M = (Inl e, this,
                       hp \<lparr> databases := databases hp @ [None],
                            destroyed := destroyed hp @ [SimpleDb (db1 \<lparr> root := None \<rparr>)] \<rparr>))"
  proof (intro allI impI, elim conjE)
    fix cache e db1
    assume c: "cache_path this = Some cache"
      and o: "Open fs (SimpleDatabase_ctor (Build cache (cache_mount_name storage_uri))
                      (compress this)) = (Inr (), db1)"
      and m: "fst (Mount local_uri ?a this) = Inl e"
    obtain this' where m': "Mount local_uri ?a this = (Inl e, this')"
      using m by (cases "Mount local_uri ?a this") auto
    from Mount_fails_unchanged [OF m'] have same: "this' = this" .
    from Open_opened [OF o] have rt: "root db1 \<noteq> None"
      and cl: "Close db1 = (Inr (), db1 \<lparr> root := None \<rparr>)"
      by (simp_all add: Close_opened)
    from c o m' same rt cl
    show "fst ?M = Inl e
          \<and> (is_exception e
              \<longrightarrow> root db1 \<noteq> None
                  \<and> Close db1 = (Inr (), db1 \<lparr> root := None \<rparr>)
                  \<and> ?M = (Inl e, this,
                       hp \<lparr> databases := databases hp @ [None],
                            destroyed := destroyed hp @ [SimpleDb (db1 \<lparr> root := None \<rparr>)] \<rparr>))"
      by (simp add: Mount_storage_def Let_def store_new_def delete_new_database)
  qed
  have atomic: "\<forall>e this' hp'. ?M = (Inl e, this', hp') \<and> is_exception e
      \<longrightarrow> this' = this \<and> store_get (databases hp') = store_get (databases hp)
          \<and> prefixed_songs hp' = prefixed_songs hp"
  proof (intro allI impI, elim conjE)
    fix e this' hp'
    assume r: "?M = (Inl e, this', hp')" and ex: "is_exception e"
    show "this' = this \<and> store_get (databases hp') = store_get (databases hp)
          \<and> prefixed_songs hp' = prefixed_songs hp"
    proof (cases "cache_path this")
      case None
      with r show ?thesis by (simp add: Mount_storage_def)
    next
      case (Some cache)
      let ?db0 = "SimpleDatabase_ctor (Build cache (cache_mount_name storage_uri)) (compress this)"
      obtain res db1 where o: "Open fs ?db0 = (res, db1)" by (cases "Open fs ?db0")
      show ?thesis
      proof (cases res)
        case (Inl e1)
        with open_fails Some o have "fst ?M = Inl e1" by simp
        with r have "e1 = e" by simp
        with open_fails Some o Inl ex r show ?thesis
          by (auto simp: store_get_freed)
      next
        case (Inr x)
        with o have o': "Open fs ?db0 = (Inr (), db1)" by simp
        obtain res2 this2 where m: "Mount local_uri ?a this = (res2, this2)"
          by (cases "Mount local_uri ?a this")
        show ?thesis
        proof (cases res2)
          case (Inl e2)
          with m have f: "fst (Mount local_uri ?a this) = Inl e2" by simp
          with mount_fails Some o' have "fst ?M = Inl e2" by blast
          with r have "e2 = e" by simp
          with mount_fails Some o' f ex r show ?thesis
            by (auto simp: store_get_freed)
        next
          case (Inr y)
          with r Some o' m show ?thesis
            by (simp add: Mount_storage_def Let_def store_new_def)
        qed
      qed
    qed
  qed
  from unconfigured atomic open_fails mount_fails show ?thesis by blast
qed

lemma example_name: "cache_mount_name ''http://x/y:z'' = ''http___x_y_z''"
  by (simp add: cache_mount_name_def IsUnsafeChar_def IsSafeChar_def IsAlphaNumericASCII_def
        IsUpperAlphaASCII_def IsLowerAlphaASCII_def IsDigitASCII_def)

lemma example_open_readonly:
  "Open example_fs_readonly (SimpleDatabase_ctor ''/cache/http___x_y_z'' False) =
     (Inl (SystemError (''Can't create db file in '' @ quoted ''/cache'')),
      (SimpleDatabase_ctor ''/cache/http___x_y_z'' False)
         \<lparr> root := None, mtime := time_point_min, borrowed_song_count := 0 \<rparr>)"
  by (simp add: Open_def Load_def Check_def SimpleDatabase_ctor_def example_fs_def
        example_fs_readonly_def GetDirectoryName_def has_slash_def Let_def)

lemma example_open:
  "Open example_fs (SimpleDatabase_ctor ''/cache/http___x_y_z'' False) =
     (Inr (),
      (SimpleDatabase_ctor ''/cache/http___x_y_z'' False)
         \<lparr> root := Some NewRoot, mtime := time_point_min, borrowed_song_count := 0 \<rparr>)"
  by (simp add: Open_def Load_def Check_def SimpleDatabase_ctor_def example_fs_def
        GetDirectoryName_def has_slash_def Let_def)

lemma example_mount_conflict:
  "Mount ''a'' 2 example_db = (Inl (DatabaseError CONFLICT ''Already exists''), example_db)"
  by (simp add: Mount_def example_db_def example_lookup_dir)

text \<open>
  In the example: no cache directory; a cache directory that cannot be written to, so
  that \<^verbatim>\<open>Open\<close> fails; and a mount point that exists already, so that \<^verbatim>\<open>Mount\<close>
  fails and the opened database is closed and deleted.
\<close>

theorem Mount_storage_atomic_witness:
  "Mount_storage example_fs ''remote'' ''http://x/y:z''
       (example_db \<lparr> cache_path := None \<rparr>, example_heap) =
     (Inl (DatabaseError NOT_FOUND ''No 'cache_directory' configured''),
      example_db \<lparr> cache_path := None \<rparr>, example_heap)
   \<and> Mount_storage example_fs_readonly ''remote'' ''http://x/y:z'' (example_db, example_heap) =
       (Inl (SystemError (''Can't create db file in '' @ quoted ''/cache'')),
        example_db,
        example_heap \<lparr> databases := databases example_heap @ [None],
          destroyed := [SimpleDb ((SimpleDatabase_ctor ''/cache/http___x_y_z'' False)
             \<lparr> root := None, mtime := time_point_min, borrowed_song_count := 0 \<rparr>)] \<rparr>)
   \<and> Mount_storage example_fs ''a'' ''http://x/y:z'' (example_db, example_heap) =
       (Inl (DatabaseError CONFLICT ''Already exists''),
        example_db,
        example_heap \<lparr> databases := databases example_heap @ [None],
          destroyed := [SimpleDb ((SimpleDatabase_ctor ''/cache/http___x_y_z'' False)
             \<lparr> root := None, mtime := time_point_min, borrowed_song_count := 0 \<rparr>)] \<rparr>)
   \<and> store_get (databases example_heap @ [None]) = store_get (databases example_heap)"
proof -
  have cache: "cache_path example_db = Some ''/cache''" and compress: "\<not> compress example_db"
    and len: "length (databases example_heap) = 2"
    and none: "destroyed example_heap = []"
    by (simp_all add: example_db_def example_heap_def)
  have build: "Build ''/cache'' ''http___x_y_z'' = ''/cache/http___x_y_z''"
    by (simp add: Build_def)
  note thm1 = Mount_storage_atomic [of "example_db \<lparr> cache_path := None \<rparr>" example_fs
      "''remote''" "''http://x/y:z''" example_heap]
  note thm2 = Mount_storage_atomic [of example_db example_fs_readonly
      "''remote''" "''http://x/y:z''" example_heap]
  note thm3 = Mount_storage_atomic [of example_db example_fs
      "''a''" "''http://x/y:z''" example_heap]
  have a: "Mount_storage example_fs ''remote'' ''http://x/y:z''
       (example_db \<lparr> cache_path := None \<rparr>, example_heap) =
     (Inl (DatabaseError NOT_FOUND ''No 'cache_directory' configured''),
      example_db \<lparr> cache_path := None \<rparr>, example_heap)"
    using thm1 by simp
  have b: "Mount_storage example_fs_readonly ''remote'' ''http://x/y:z''
            (example_db, example_heap) =
       (Inl (SystemError (''Can't create db file in '' @ quoted ''/cache'')),
        example_db,
        example_heap \<lparr> databases := databases example_heap @ [None],
          destroyed := [SimpleDb ((SimpleDatabase_ctor ''/cache/http___x_y_z'' False)
             \<lparr> root := None, mtime := time_point_min, borrowed_song_count := 0 \<rparr>)] \<rparr>)"
    using thm2 cache compress example_open_readonly none
    by (simp add: example_name build)
  have c: "Mount_storage example_fs ''a'' ''http://x/y:z'' (example_db, example_heap) =
       (Inl (DatabaseError CONFLICT ''Already exists''),
        example_db,
        example_heap \<lparr> databases := databases example_heap @ [None],
          destroyed := [SimpleDb ((SimpleDatabase_ctor ''/cache/http___x_y_z'' False)
             \<lparr> root := None, mtime := time_point_min, borrowed_song_count := 0 \<rparr>)] \<rparr>)"
    using thm3 cache compress example_open example_mount_conflict len none
    by (simp add: example_name build)
  have d: "store_get (databases example_heap @ [None]) = store_get (databases example_heap)"
    using thm3 c by simp
  from a b c d show ?thesis by simp
qed

subsection \<open>Unmounting after a query of the mount\<close>

lemma example_lookup_usb:
  "LookupDirectory (Directory [] [Directory ''usb'' [] [] (Some 0)] [] None) ''usb'' =
     \<lparr> directory = [0], node = Directory ''usb'' [] [] (Some 0),
       node_path = ''usb'', uri = None \<rparr>"
  by (simp add: lookup_defs)

lemma example_lookup_usb_song:
  "LookupDirectory (Directory [] [Directory ''usb'' [] [] (Some 0)] [] None) ''usb/s.mp3'' =
     \<lparr> directory = [0], node = Directory ''usb'' [] [] (Some 0),
       node_path = ''usb'', uri = Some ''s.mp3'' \<rparr>"
  by (simp add: lookup_defs)

lemma example_lookup_in_usb:
  "LookupDirectory (Directory [] [] [\<lparr> Song.uri = ''s.mp3'', Song.tag = [] \<rparr>] None) ''s.mp3'' =
     \<lparr> directory = [],
       node = Directory [] [] [\<lparr> Song.uri = ''s.mp3'', Song.tag = [] \<rparr>] None,
       node_path = [], uri = Some ''s.mp3'' \<rparr>"
  by (simp add: lookup_defs)

lemma example_usb_get:
  "GetSong (no_mounts :: unit Database_methods) ''s.mp3'' (example_usb, empty_heap) =
     (Inr Slot, example_usb_borrowed, empty_heap)"
  by (simp add: GetSong_def example_usb_def example_usb_borrowed_def example_lookup_in_usb
        FindSong_def has_slash_def Export_def)

lemma example_host_get:
  "GetSong example_methods ''usb/s.mp3'' (example_host, example_host_heap) =
     (Inr (Prefixed 0),
      example_host \<lparr> prefixed_light_song := Some 0 \<rparr>,
      \<lparr> databases = [Some (SimpleDb example_usb_borrowed)],
        prefixed_songs = [Some example_usb_prefixed], destroyed = [] \<rparr>)"
proof -
  have m: "db_GetSong example_methods (SimpleDb example_usb) (Some ''s.mp3'') =
             (Inr (light_song example_usb_borrowed), SimpleDb example_usb_borrowed)"
    by (simp add: example_methods_def example_usb_get)
  have ls: "light_song example_usb_borrowed =
              Some \<lparr> LightSong.directory = None, LightSong.uri = ''s.mp3'', LightSong.tag = [] \<rparr>"
    by (simp add: example_usb_borrowed_def)
  show ?thesis
    by (simp add: GetSong_def example_host_def example_db_def example_host_heap_def
          example_lookup_usb_song store_get_def store_set_def store_new_def m ls
          PrefixedLightSong_def GetURI_def example_usb_prefixed_def)
qed

lemma example_usb_close:
  "db_Close example_methods (SimpleDb example_usb) = (Inr (), SimpleDb (example_usb \<lparr> root := None \<rparr>))"
  "db_Close example_methods (SimpleDb example_usb_borrowed) =
     (Inl AssertionFailed, SimpleDb example_usb_borrowed)"
  by (simp_all add: example_methods_def Close_def example_usb_def example_usb_borrowed_def)

lemma example_host_steal:
  "LockUmountSteal ''usb'' (example_host \<lparr> prefixed_light_song := p \<rparr>) =
     (Inr (Some 0), example_host \<lparr> prefixed_light_song := p, root := Some (Directory [] [] [] None) \<rparr>)"
  by (simp add: LockUmountSteal_def example_host_def example_db_def example_lookup_usb
        IsMount_def Delete_def set_mounted_database_def remove_nth_def)

text \<open>
  C5 holds while the mount has not been queried and fails afterwards. In the example a
  \<^verbatim>\<open>SimpleDatabase\<close> with the song \<^verbatim>\<open>s.mp3\<close> is mounted at \<^verbatim>\<open>usb\<close>. \<^verbatim>\<open>Unmount\<close> of
  \<^verbatim>\<open>usb\<close> removes the mount point, closes the mounted database, deletes it closed and
  returns true. After \<^verbatim>\<open>GetSong\<close> of \<^verbatim>\<open>usb/s.mp3\<close> the mounted database counts one
  borrowed song: \<^verbatim>\<open>GetSong\<close>, lines 214 to 221, borrows the song from the mounted
  database and never returns it. \<^verbatim>\<open>Unmount\<close> of \<^verbatim>\<open>usb\<close> then removes the mount point and
  fails the assertion of line 194 in the \<^verbatim>\<open>Close\<close> of the mounted database, which stays
  on the heap with no directory that mounts it; so it does when the prefixed song has
  been returned first.
\<close>

theorem Unmount_after_mount_query:
  "Unmount example_methods ''usb'' (example_host, example_host_heap) =
     (Inr True,
      example_host \<lparr> root := Some (Directory [] [] [] None) \<rparr>,
      \<lparr> databases = [None], prefixed_songs = [],
        destroyed = [SimpleDb (example_usb \<lparr> root := None \<rparr>)] \<rparr>)
   \<and> GetSong example_methods ''usb/s.mp3'' (example_host, example_host_heap) =
     (Inr (Prefixed 0),
      example_host \<lparr> prefixed_light_song := Some 0 \<rparr>,
      \<lparr> databases = [Some (SimpleDb example_usb_borrowed)],
        prefixed_songs = [Some example_usb_prefixed], destroyed = [] \<rparr>)
   \<and> borrowed_song_count example_usb_borrowed = 1
   \<and> Unmount example_methods ''usb''
       (example_host \<lparr> prefixed_light_song := Some 0 \<rparr>,
        \<lparr> databases = [Some (SimpleDb example_usb_borrowed)],
          prefixed_songs = [Some example_usb_prefixed], destroyed = [] \<rparr>) =
     (Inl AssertionFailed,
      example_host \<lparr> prefixed_light_song := Some 0, root := Some (Directory [] [] [] None) \<rparr>,
      \<lparr> databases = [Some (SimpleDb example_usb_borrowed)],
        prefixed_songs = [Some example_usb_prefixed], destroyed = [] \<rparr>)
   \<and> ReturnSong False (Prefixed 0)
       (example_host \<lparr> prefixed_light_song := Some 0 \<rparr>,
        \<lparr> databases = [Some (SimpleDb example_usb_borrowed)],
          prefixed_songs = [Some example_usb_prefixed], destroyed = [] \<rparr>) =
     (Inr (), example_host,
      \<lparr> databases = [Some (SimpleDb example_usb_borrowed)],
        prefixed_songs = [None], destroyed = [] \<rparr>)
   \<and> Unmount example_methods ''usb''
       (example_host,
        \<lparr> databases = [Some (SimpleDb example_usb_borrowed)],
          prefixed_songs = [None], destroyed = [] \<rparr>) =
     (Inl AssertionFailed,
      example_host \<lparr> root := Some (Directory [] [] [] None) \<rparr>,
      \<lparr> databases = [Some (SimpleDb example_usb_borrowed)],
        prefixed_songs = [None], destroyed = [] \<rparr>)"
proof -
  have steal0: "LockUmountSteal ''usb'' example_host =
     (Inr (Some 0), example_host \<lparr> root := Some (Directory [] [] [] None) \<rparr>)"
    using example_host_steal [of "prefixed_light_song example_host"] by simp
  have fresh: "Unmount example_methods ''usb'' (example_host, example_host_heap) =
     (Inr True,
      example_host \<lparr> root := Some (Directory [] [] [] None) \<rparr>,
      \<lparr> databases = [None], prefixed_songs = [],
        destroyed = [SimpleDb (example_usb \<lparr> root := None \<rparr>)] \<rparr>)"
    by (simp add: Unmount_def steal0 example_host_heap_def store_get_def store_set_def
          store_delete_def example_usb_close delete_database_def)
  have count: "borrowed_song_count example_usb_borrowed = 1"
    by (simp add: example_usb_borrowed_def)
  have outstanding: "Unmount example_methods ''usb''
       (example_host \<lparr> prefixed_light_song := Some 0 \<rparr>,
        \<lparr> databases = [Some (SimpleDb example_usb_borrowed)],
          prefixed_songs = [Some example_usb_prefixed], destroyed = [] \<rparr>) =
     (Inl AssertionFailed,
      example_host \<lparr> prefixed_light_song := Some 0, root := Some (Directory [] [] [] None) \<rparr>,
      \<lparr> databases = [Some (SimpleDb example_usb_borrowed)],
        prefixed_songs = [Some example_usb_prefixed], destroyed = [] \<rparr>)"
    by (simp add: Unmount_def example_host_steal store_get_def store_set_def example_usb_close)
  have returned: "ReturnSong False (Prefixed 0)
       (example_host \<lparr> prefixed_light_song := Some 0 \<rparr>,
        \<lparr> databases = [Some (SimpleDb example_usb_borrowed)],
          prefixed_songs = [Some example_usb_prefixed], destroyed = [] \<rparr>) =
     (Inr (), example_host,
      \<lparr> databases = [Some (SimpleDb example_usb_borrowed)],
        prefixed_songs = [None], destroyed = [] \<rparr>)"
    by (simp add: ReturnSong_def Manual_Get_def store_delete_def example_host_def example_db_def)
  have after: "Unmount example_methods ''usb''
       (example_host,
        \<lparr> databases = [Some (SimpleDb example_usb_borrowed)],
          prefixed_songs = [None], destroyed = [] \<rparr>) =
     (Inl AssertionFailed,
      example_host \<lparr> root := Some (Directory [] [] [] None) \<rparr>,
      \<lparr> databases = [Some (SimpleDb example_usb_borrowed)],
        prefixed_songs = [None], destroyed = [] \<rparr>)"
    by (simp add: Unmount_def steal0 store_get_def store_set_def example_usb_close)
  from fresh example_host_get count outstanding returned after show ?thesis by simp
qed

subsection \<open>Prefixed results\<close>











subsection \<open>Returning a song borrowed from a mount\<close>


end
